theory Spec2Isabelle
  imports Complex_Main
begin

section \<open>Column names\<close>

text \<open>
  Header strings are Python \<open>str\<close> values. They are modelled as \<open>string\<close>, one
  \<open>char\<close> per code point, which covers the code points below 256; every header of
  the registry is ASCII.

  \<open>is_space\<close> is \<open>str.isspace\<close> on these code points: it decides what
  \<open>str.split()\<close> and \<open>str.strip()\<close> remove.
\<close>

definition is_space :: "char \<Rightarrow> bool" where
  "is_space c = (c \<in> set [CHR 0x09, CHR 0x0A, CHR 0x0B, CHR 0x0C, CHR 0x0D,
                            CHR 0x1C, CHR 0x1D, CHR 0x1E, CHR 0x1F, CHR 0x20,
                            CHR 0x85, CHR 0xA0])"

text \<open>
  \<open>column_cleaning_regex = re.compile(r'\[.*?\]')\<close>. After an opening bracket the lazy
  \<open>.*?\<close> stops at the first closing bracket; \<open>.\<close> does not match a line feed (the
  pattern is compiled without DOTALL), so a line feed met before a closing bracket makes the
  match at this opening bracket fail. \<open>find_close cs\<close> is the text after the match when
  the text after the opening bracket is \<open>cs\<close>.
\<close>

fun find_close :: "string \<Rightarrow> string option" where
  "find_close [] = None"
| "find_close (c # cs) =
     (if c = CHR '']'' then Some cs
      else if c = CHR 0x0A then None
      else find_close cs)"

lemma find_close_length: "find_close cs = Some rest \<Longrightarrow> length rest < Suc (length cs)"
  by (induction cs) (auto split: if_splits)

text \<open>
  \<open>column_cleaning_regex.sub('', column_name)\<close>: the matches are found from left to
  right, each search starting where the previous match ended, and every match is deleted.
\<close>

function sub_brackets :: "string \<Rightarrow> string" where
  "sub_brackets [] = []"
| "sub_brackets (c # cs) =
     (if c = CHR ''[''
      then (case find_close cs of
              Some rest \<Rightarrow> sub_brackets rest
            | None \<Rightarrow> c # sub_brackets cs)
      else c # sub_brackets cs)"
  by pat_completeness auto
termination
  by (relation "measure length") (auto dest: find_close_length)

text \<open>
  \<open>str.split()\<close> with no argument: the maximal runs of characters that are not white
  space, in order. The second argument is the run being read.
\<close>

fun split_acc :: "string \<Rightarrow> string \<Rightarrow> string list" where
  "split_acc [] w = (if w = [] then [] else [w])"
| "split_acc (c # cs) w =
     (if is_space c
      then (if w = [] then split_acc cs [] else w # split_acc cs [])
      else split_acc cs (w @ [c]))"

definition split :: "string \<Rightarrow> string list" where
  "split s = split_acc s []"

definition strip :: "string \<Rightarrow> string" where
  "strip s = rev (dropWhile is_space (rev (dropWhile is_space s)))"

definition clean_column_name :: "string \<Rightarrow> string" where
  "clean_column_name column_name =
     (let cleaned_name = sub_brackets column_name;
          cleaned_name = concat (filter (\<lambda>part. part \<noteq> []) (split cleaned_name));
          cleaned_name = strip (filter (\<lambda>ch. ch \<notin> set [CHR ''.'', CHR ''_'']) cleaned_name)
      in cleaned_name)"

section \<open>The schema registry\<close>

record bank_schema =
  columns :: "string list"
  column_mapping :: "(string \<times> string) list"

definition BANK_CODE_MAPPING :: "(string \<times> int) list" where
  "BANK_CODE_MAPPING = [(''hdfc'', 101), (''icici'', 102), (''karur_vysya'', 40)]"

definition BANK_MAPPINGS :: "(string \<times> (string \<times> bank_schema) list) list" where
  "BANK_MAPPINGS =
    [(''karur_vysya'',
       [(''booking'',
          \<lparr>columns = [''TXN DATE'', ''IRCTC ORDER NO.'', ''BANK BOOKING REF.NO.'',
                      ''BOOKING AMOUNT'', ''CREDITED ON''],
           column_mapping =
             [(''IRCTCORDERNO'', ''Order_Id''),
              (''BANKBOOKINGREFNO'', ''Bank_Ref_id''),
              (''BOOKINGAMOUNT'', ''Payable_Merchant''),
              (''TXNDATE'', ''Transaction_Date''),
              (''CREDITEDON'', ''Settlement_Date'')]\<rparr>),
        (''refund'',
          \<lparr>columns = [''REFUND DATE'', ''IRCTC ORDER NO.'', ''BANK BOOKING REF.NO.'',
                      ''BANK REFUND REF.NO.'', ''REFUND AMOUNT'', ''DEBITED ON''],
           column_mapping =
             [(''IRCTCORDERNO'', ''Order_Id''),
              (''REFUNDAMOUNT'', ''Payable_Merchant''),
              (''DEBITEDON'', ''Settlement_Date''),
              (''REFUNDDATE'', ''Transaction_Date''),
              (''BANKBOOKINGREFNO'', ''Bank_Ref_id''),
              (''BANKREFUNDREFNO'', ''Refund_Order_Id'')]\<rparr>)]),
     (''icici'',
       [(''both'',
          \<lparr>columns = [''POST DATE'', ''FT NO.'', ''SESSION ID [ASPD]'', ''ARN NO'', ''MID'',
                      ''TRANSACTION DATE'', ''NET AMT'', ''CARD NUMBER'', ''CARD TYPE'', ''TID''],
           column_mapping =
             [(''TRANSACTIONDATE'', ''Transaction_Date''),
              (''SESSIONID'', ''Order_Id''),
              (''FTNO'', ''Transaction_Id''),
              (''ARNNO'', ''Arn_No''),
              (''MID'', ''MID''),
              (''POSTDATE'', ''Settlement_Date''),
              (''NETAMT'', ''Payable_Merchant''),
              (''CARDNUMBER'', ''Card_No''),
              (''CARDTYPE'', ''Card_type''),
              (''TID'', ''Tid'')]\<rparr>)])]"

text \<open>
  The lookup of \<open>process_dataframe_chunk\<close>: \<open>BANK_MAPPINGS.get(bank_name, {})\<close>, then
  the entry of the transaction type, else the entry \<open>'both'\<close>, else no schema.
\<close>

definition resolve :: "string \<Rightarrow> string \<Rightarrow> bank_schema option" where
  "resolve bank_name transaction_type =
     (let bank_mapping = (case map_of BANK_MAPPINGS bank_name of None \<Rightarrow> [] | Some m \<Rightarrow> m) in
      if map_of bank_mapping transaction_type \<noteq> None then map_of bank_mapping transaction_type
      else if map_of bank_mapping ''both'' \<noteq> None then map_of bank_mapping ''both''
      else None)"

definition expected_columns :: "bank_schema \<Rightarrow> string list" where
  "expected_columns columns_mapping = map clean_column_name (columns columns_mapping)"

section \<open>Values, frames and the outside world\<close>

text \<open>
  A float of the running program: a finite number (read as the real it denotes), an infinity
  or NaN. Only the comparisons with zero of \<open>process_dataframe_chunk\<close> are needed:
  \<open>x > 0\<close> and \<open>x < 0\<close> are both false on NaN.
\<close>

datatype pyfloat = NaN | NegInf | Fin real | PosInf

fun float_gt0 :: "pyfloat \<Rightarrow> bool" where
  "float_gt0 (Fin x) = (0 < x)"
| "float_gt0 PosInf = True"
| "float_gt0 NegInf = False"
| "float_gt0 NaN = False"

fun float_lt0 :: "pyfloat \<Rightarrow> bool" where
  "float_lt0 (Fin x) = (x < 0)"
| "float_lt0 NegInf = True"
| "float_lt0 PosInf = False"
| "float_lt0 NaN = False"

text \<open>
  The objects a cell of a chunk or a field of a transaction dictionary holds: \<open>None\<close>,
  the null date \<open>pd.NaT\<close>, a string, a float, an integer (the bank code), a time stamp
  (nanoseconds), the sub-series \<open>row.get\<close> returns for a label that occurs several times,
  and the chunk object itself (what \<open>convert_column_to_datetime\<close> and
  \<open>convert_payable_to_float\<close> return). A missing cell of a file read with
  \<open>dtype=str\<close> is \<open>Float NaN\<close>.
\<close>

datatype val =
    PyNone
  | NaT
  | Str string
  | Float pyfloat
  | IntV int
  | Timestamp int
  | Series "val list"
  | DataFrame

datatype dtype = ObjectDtype | NumericDtype | DatetimeDtype

record column =
  label :: string
  dtype :: dtype
  cells :: "val list"

text \<open>A chunk: the row labels and the columns, every column with one cell per row label.\<close>

record frame =
  index :: "nat list"
  cols :: "column list"

definition df_columns :: "frame \<Rightarrow> string list" where
  "df_columns df = map label (cols df)"

datatype selection = No_column | One_column column | Many_columns

text \<open>\<open>df[name]\<close>: a series when one column has the label, a frame when several have.\<close>

definition getitem :: "frame \<Rightarrow> string \<Rightarrow> selection" where
  "getitem df name =
     (case filter (\<lambda>c. label c = name) (cols df) of
        [] \<Rightarrow> No_column
      | [c] \<Rightarrow> One_column c
      | _ \<Rightarrow> Many_columns)"

text \<open>\<open>df[name] = series\<close>: overwrites the columns of that label, else adds one at the end.\<close>

definition setitem :: "frame \<Rightarrow> string \<Rightarrow> dtype \<Rightarrow> val list \<Rightarrow> frame" where
  "setitem df name dt vs =
     (if name \<in> set (df_columns df)
      then df\<lparr>cols := map (\<lambda>c. if label c = name then c\<lparr>dtype := dt, cells := vs\<rparr> else c) (cols df)\<rparr>
      else df\<lparr>cols := cols df @ [\<lparr>label = name, dtype = dt, cells = vs\<rparr>]\<rparr>)"

type_synonym row = "(string \<times> val) list"

text \<open>
  \<open>df.iterrows()\<close>: the rows are taken from the values of the frame when the loop starts,
  each row a series labelled by the column labels.
\<close>

fun iterrows_from :: "nat list \<Rightarrow> column list \<Rightarrow> (nat \<times> row) list" where
  "iterrows_from [] cs = []"
| "iterrows_from (k # ks) cs =
     (k, map (\<lambda>c. (label c, case cells c of [] \<Rightarrow> PyNone | v # _ \<Rightarrow> v)) cs)
       # iterrows_from ks (map (\<lambda>c. c\<lparr>cells := tl (cells c)\<rparr>) cs)"

definition iterrows :: "frame \<Rightarrow> (nat \<times> row) list" where
  "iterrows df = iterrows_from (index df) (cols df)"

text \<open>\<open>row.get(name)\<close>: \<open>None\<close> when no column has the label.\<close>

definition row_get :: "row \<Rightarrow> string \<Rightarrow> val" where
  "row_get r name =
     (case filter (\<lambda>(l, v). l = name) r of
        [] \<Rightarrow> PyNone
      | [(l, v)] \<Rightarrow> v
      | vs \<Rightarrow> Series (map snd vs))"

type_synonym transaction_data = "(string \<times> val) list"

record batch_result =
  total_successful :: nat
  total_failed :: nat

datatype exn = AttributeError | ValueError | KeyError

text \<open>The calls of the logger, one constructor per call in the source.\<close>

datatype event =
    Info_processing_chunk string string string
  | Error_no_valid_mapping string string
  | Error_missing_columns "string set" string string
  | Warning_could_not_parse_dates string "nat list"
  | Warning_encountered_NaT string val
  | Info_started_transactions string string string
  | Error_no_bank_id string
  | Error_unexpected_type string
  | Error_transaction_failed
  | Debug_batch_complete nat nat

text \<open>
  What \<open>Transaction.bulk_create_transactions\<close> did: it returned with the table as given,
  or it raised with the table as given (rows may have been written before the exception).
\<close>

datatype store_result = Stored "transaction_data list" | Failed "transaction_data list"

text \<open>
  The library and the model class the pipeline calls, as parameters:
  \<^item> \<open>pd_to_numeric\<close>: \<open>pd.to_numeric(..., errors='coerce')\<close> on one string, NaN when
    the string is not a number;
  \<^item> \<open>pd_to_datetime\<close>: \<open>pd.to_datetime(column, errors='coerce')\<close> on one cell of the
    given column, no time stamp when the cell is not a date;
  \<^item> \<open>bulk_create_transactions\<close>: \<open>Transaction.bulk_create_transactions\<close> (models.py),
    on the batch and the table.
\<close>

record env =
  pd_to_numeric :: "string \<Rightarrow> pyfloat"
  pd_to_datetime :: "val list \<Rightarrow> val \<Rightarrow> int option"
  bulk_create_transactions :: "transaction_data list \<Rightarrow> transaction_data list \<Rightarrow> store_result"

text \<open>
  The state outside the pipeline: the table of the \<open>Transaction\<close> model, the cache slot
  \<open>'latest_transaction_results'\<close>, the log, and the batches handed to
  \<open>bulk_create_transactions\<close> so far.
\<close>

record world =
  table :: "transaction_data list"
  cache :: "batch_result option"
  logged :: "event list"
  bulk_calls :: "transaction_data list list"

datatype 'a outcome = Returned 'a | Raised exn

section \<open>Type coercers\<close>

text \<open>
  One cell through \<open>pd.to_numeric(df[column_name].str.replace(',', ''), errors='coerce')\<close>:
  \<open>.str.replace\<close> deletes the commas of a string and gives NaN for a cell that is not a
  string; the parser keeps NaN.
\<close>

definition to_amount :: "env \<Rightarrow> val \<Rightarrow> val" where
  "to_amount e v =
     (case v of
        Str s \<Rightarrow> Float (pd_to_numeric e (filter (\<lambda>ch. ch \<noteq> CHR '','') s))
      | _ \<Rightarrow> Float NaN)"

text \<open>
  \<open>convert_payable_to_float\<close>. The accessor \<open>.str\<close> raises AttributeError on a frame
  (several columns of the label) and on a column that does not hold strings.
\<close>

definition convert_payable_to_float :: "env \<Rightarrow> frame \<Rightarrow> string \<Rightarrow> exn + frame" where
  "convert_payable_to_float e df column_name =
     (case getitem df column_name of
        No_column \<Rightarrow> Inl KeyError
      | Many_columns \<Rightarrow> Inl AttributeError
      | One_column c \<Rightarrow>
          if dtype c = ObjectDtype
          then Inr (setitem df column_name NumericDtype (map (to_amount e) (cells c)))
          else Inl AttributeError)"

definition to_datetime :: "env \<Rightarrow> val list \<Rightarrow> val \<Rightarrow> val" where
  "to_datetime e column v =
     (case pd_to_datetime e column v of None \<Rightarrow> NaT | Some t \<Rightarrow> Timestamp t)"

text \<open>
  \<open>convert_column_to_datetime\<close>: the frame and the warning it logs, if any.
  \<open>pd.to_datetime\<close> on a frame (several columns of the label) raises ValueError.
\<close>

definition convert_column_to_datetime :: "env \<Rightarrow> frame \<Rightarrow> string \<Rightarrow> exn + frame \<times> event list" where
  "convert_column_to_datetime e df column_name =
     (case getitem df column_name of
        No_column \<Rightarrow> Inl KeyError
      | Many_columns \<Rightarrow> Inl ValueError
      | One_column c \<Rightarrow>
          (let parsed = map (to_datetime e (cells c)) (cells c);
               df' = setitem df column_name DatetimeDtype parsed;
               unsuccessful_dates = map fst (filter (\<lambda>(k, v). v = NaT) (zip (index df') parsed))
           in Inr (df', if unsuccessful_dates \<noteq> []
                        then [Warning_could_not_parse_dates column_name unsuccessful_dates]
                        else [])))"

definition datetime_fields :: "string list" where
  "datetime_fields = [''Transaction_Date'', ''Settlement_Date'', ''Refund_Request_Date'',
                      ''Credit_Debit_Date'', ''File_upload_Date'']"

text \<open>\<open>d[k] = v\<close> on a dictionary kept as the list of its items.\<close>

definition dict_set :: "transaction_data \<Rightarrow> string \<Rightarrow> val \<Rightarrow> transaction_data" where
  "dict_set d k v =
     (if k \<in> fst ` set d
      then map (\<lambda>(k', v'). if k' = k then (k', v) else (k', v')) d
      else d @ [(k, v)])"

text \<open>
  The loop of \<open>handle_nat_in_datetime_fields\<close> over the fields still to visit:
  the dictionary (or the KeyError of \<open>transaction_data[field]\<close>) and the warnings.
\<close>

fun handle_nat_fields :: "string list \<Rightarrow> transaction_data \<Rightarrow> (exn + transaction_data) \<times> event list" where
  "handle_nat_fields [] d = (Inr d, [])"
| "handle_nat_fields (field # todo) d =
     (case map_of d field of
        None \<Rightarrow> (Inl KeyError, [])
      | Some v \<Rightarrow>
          if v = NaT
          then (case handle_nat_fields todo (dict_set d field PyNone) of
                  (res, evs) \<Rightarrow>
                    (res, Warning_encountered_NaT field
                            (case map_of d ''Transaction_Id'' of None \<Rightarrow> Str ''Unknown'' | Some t \<Rightarrow> t)
                          # evs))
          else handle_nat_fields todo d)"

definition handle_nat_in_datetime_fields :: "transaction_data \<Rightarrow> (exn + transaction_data) \<times> event list" where
  "handle_nat_in_datetime_fields transaction_data = handle_nat_fields datetime_fields transaction_data"

section \<open>The transaction materializer and the batch committer\<close>

text \<open>
  The dictionary display of \<open>process_transactions\<close>, as the list of its keys with the
  expression of each: an argument of the call, the MID expression, \<open>row.get(label)\<close>,
  \<open>convert_column_to_datetime(df_chunk, c) if c in df_chunk else None\<close>,
  \<open>convert_payable_to_float(df_chunk, c) if c in df_chunk else None\<close>, or \<open>None\<close>.
  The expressions are evaluated in this order.
\<close>

datatype field_expr =
    Arg_transaction_type
  | Arg_merchant_name
  | Arg_bank_name
  | Mid_expr
  | Row_get string
  | Datetime_if_present string
  | Float_if_present string
  | None_literal

definition transaction_fields :: "(string \<times> field_expr) list" where
  "transaction_fields =
    [(''Transaction_type'', Arg_transaction_type),
     (''Merchant_Name'', Arg_merchant_name),
     (''MID'', Mid_expr),
     (''Transaction_Id'', Row_get ''Transaction_Id''),
     (''Order_Id'', Row_get ''Order_Id''),
     (''Transaction_Date'', Row_get ''Transaction_Date''),
     (''Settlement_Date'', Row_get ''Settlement_Date''),
     (''Refund_Request_Date'', Datetime_if_present ''Refund_Request_Date''),
     (''Gross_Amount'', Float_if_present ''Gross_Amount''),
     (''Aggregator_Com'', Float_if_present ''Aggregator_Com''),
     (''Acquirer_Comm'', Float_if_present ''Acquirer_Comm''),
     (''Payable_Merchant'', Row_get ''Payable_Merchant''),
     (''Payout_from_Nodal'', Float_if_present ''Payout_from_Nodal''),
     (''BankName_Receive_Funds'', Row_get ''BankName_Receive_Funds''),
     (''Nodal_Account_No'', Row_get ''Nodal_Account_No''),
     (''Aggregator_Name'', Row_get ''Aggregator_Name''),
     (''Acquirer_Name'', Row_get ''Acquirer_Name''),
     (''Refund_Flag'', Row_get ''Refund_Flag''),
     (''Payments_Type'', Row_get ''Payments_Type''),
     (''MOP_Type'', Row_get ''MOP_Type''),
     (''Credit_Debit_Date'', Datetime_if_present ''Credit_Debit_Date''),
     (''Bank_Name'', Arg_bank_name),
     (''Refund_Order_Id'', Row_get ''Refund_Order_Id''),
     (''Acq_Id'', Row_get ''Acq_Id''),
     (''Approve_code'', Row_get ''Approve_code''),
     (''Arn_No'', Row_get ''Arn_No''),
     (''Card_No'', Row_get ''Card_No''),
     (''Tid'', Row_get ''Tid''),
     (''Remarks'', Row_get ''Remarks''),
     (''Bank_Ref_id'', Row_get ''Bank_Ref_id''),
     (''File_upload_Date'', Datetime_if_present ''File_upload_Date''),
     (''User_name'', Row_get ''User_name''),
     (''Recon_Status'', Row_get ''Recon_Status''),
     (''Mpr_Summary_Trans'', Row_get ''Mpr_Summary_Trans''),
     (''Merchant_code'', Row_get ''Merchant_code''),
     (''Rec_Fmt'', Row_get ''Rec_Fmt''),
     (''Card_type'', Row_get ''Card_type''),
     (''Intl_Amount'', Float_if_present ''Intl_Amount''),
     (''Domestic_Amount'', Float_if_present ''Domestic_Amount''),
     (''UDF1'', None_literal),
     (''UDF2'', None_literal),
     (''UDF3'', None_literal),
     (''UDF4'', None_literal),
     (''UDF5'', None_literal),
     (''UDF6'', None_literal),
     (''GST_Number'', Row_get ''GST_Number''),
     (''Credit_Debit_Amount'', Row_get ''CREDIT_DEBIT_AMOUNT'')]"

definition banks_with_mid_override :: "string list" where
  "banks_with_mid_override = [''hdfc'', ''icici'', ''indus'']"

text \<open>
  One expression of the display, for the row \<open>r\<close> and the chunk as it is now: the value (or
  the exception), the chunk after it and the warnings logged.
\<close>

fun eval_field ::
  "env \<Rightarrow> string \<Rightarrow> int \<Rightarrow> string \<Rightarrow> string \<Rightarrow> row \<Rightarrow> field_expr \<Rightarrow> frame
     \<Rightarrow> (exn + val) \<times> frame \<times> event list" where
  "eval_field e bank_name bank_id transaction_type merchant_name r Arg_transaction_type df =
     (Inr (Str transaction_type), df, [])"
| "eval_field e bank_name bank_id transaction_type merchant_name r Arg_merchant_name df =
     (Inr (Str merchant_name), df, [])"
| "eval_field e bank_name bank_id transaction_type merchant_name r Arg_bank_name df =
     (Inr (Str bank_name), df, [])"
| "eval_field e bank_name bank_id transaction_type merchant_name r Mid_expr df =
     (Inr (if bank_name \<in> set banks_with_mid_override then row_get r ''MID'' else IntV bank_id),
      df, [])"
| "eval_field e bank_name bank_id transaction_type merchant_name r (Row_get l) df =
     (Inr (row_get r l), df, [])"
| "eval_field e bank_name bank_id transaction_type merchant_name r (Datetime_if_present c) df =
     (if c \<in> set (df_columns df)
      then (case convert_column_to_datetime e df c of
              Inl x \<Rightarrow> (Inl x, df, [])
            | Inr (df', evs) \<Rightarrow> (Inr DataFrame, df', evs))
      else (Inr PyNone, df, []))"
| "eval_field e bank_name bank_id transaction_type merchant_name r (Float_if_present c) df =
     (if c \<in> set (df_columns df)
      then (case convert_payable_to_float e df c of
              Inl x \<Rightarrow> (Inl x, df, [])
            | Inr df' \<Rightarrow> (Inr DataFrame, df', []))
      else (Inr PyNone, df, []))"
| "eval_field e bank_name bank_id transaction_type merchant_name r None_literal df =
     (Inr PyNone, df, [])"

fun build_transaction_data ::
  "env \<Rightarrow> string \<Rightarrow> int \<Rightarrow> string \<Rightarrow> string \<Rightarrow> row \<Rightarrow> (string \<times> field_expr) list \<Rightarrow> frame
     \<Rightarrow> (exn + transaction_data) \<times> frame \<times> event list" where
  "build_transaction_data e bank_name bank_id transaction_type merchant_name r [] df =
     (Inr [], df, [])"
| "build_transaction_data e bank_name bank_id transaction_type merchant_name r ((key, ex) # todo) df =
     (case eval_field e bank_name bank_id transaction_type merchant_name r ex df of
        (Inl x, df1, ev1) \<Rightarrow> (Inl x, df1, ev1)
      | (Inr v, df1, ev1) \<Rightarrow>
          (case build_transaction_data e bank_name bank_id transaction_type merchant_name r todo df1 of
             (Inl x, df2, ev2) \<Rightarrow> (Inl x, df2, ev1 @ ev2)
           | (Inr d, df2, ev2) \<Rightarrow> (Inr ((key, v) # d), df2, ev1 @ ev2)))"

record counters =
  bulk_data_transactions :: "transaction_data list"
  success_count :: nat
  fail_count :: nat

text \<open>
  The loop \<open>for index, row in df_chunk.iterrows()\<close> over the rows still to visit: the
  counters (or the exception that left the loop), the chunk and the events logged.
\<close>

fun process_rows ::
  "env \<Rightarrow> string \<Rightarrow> int \<Rightarrow> string \<Rightarrow> string \<Rightarrow> (nat \<times> row) list \<Rightarrow> counters \<Rightarrow> frame
     \<Rightarrow> (exn + counters) \<times> frame \<times> event list" where
  "process_rows e bank_name bank_id transaction_type merchant_name [] acc df = (Inr acc, df, [])"
| "process_rows e bank_name bank_id transaction_type merchant_name ((idx, r) # rows) acc df =
     (if transaction_type \<notin> set [''booking'', ''refund'', ''both'']
      then (case process_rows e bank_name bank_id transaction_type merchant_name rows
                   (acc\<lparr>fail_count := fail_count acc + 1\<rparr>) df of
              (res, df', evs) \<Rightarrow> (res, df', Error_unexpected_type transaction_type # evs))
      else (case build_transaction_data e bank_name bank_id transaction_type merchant_name r
                   transaction_fields df of
              (Inl x, df1, ev1) \<Rightarrow> (Inl x, df1, ev1)
            | (Inr transaction_data, df1, ev1) \<Rightarrow>
                (case handle_nat_in_datetime_fields transaction_data of
                   (Inl x, ev2) \<Rightarrow> (Inl x, df1, ev1 @ ev2)
                 | (Inr transaction_data', ev2) \<Rightarrow>
                     (case process_rows e bank_name bank_id transaction_type merchant_name rows
                            (acc\<lparr>bulk_data_transactions :=
                                    bulk_data_transactions acc @ [transaction_data'],
                                  success_count := success_count acc + 1\<rparr>) df1 of
                        (res, df2, ev3) \<Rightarrow> (res, df2, ev1 @ ev2 @ ev3)))))"

text \<open>
  \<open>with transaction.atomic(): Transaction.bulk_create_transactions(...)\<close>: whether it
  returned, and the world after it. When the call raises, the transaction is rolled back.
\<close>

definition atomic_bulk_create :: "env \<Rightarrow> transaction_data list \<Rightarrow> world \<Rightarrow> bool \<times> world" where
  "atomic_bulk_create e batch w =
     (let w1 = w\<lparr>bulk_calls := bulk_calls w @ [batch]\<rparr> in
      case bulk_create_transactions e batch (table w) of
        Stored t \<Rightarrow> (True, w1\<lparr>table := t\<rparr>)
      | Failed t \<Rightarrow> (False, w1))"

definition log_events :: "event list \<Rightarrow> world \<Rightarrow> world" where
  "log_events evs w = w\<lparr>logged := logged w @ evs\<rparr>"

definition process_transactions ::
  "env \<Rightarrow> frame \<Rightarrow> string \<Rightarrow> string \<Rightarrow> string \<Rightarrow> world \<Rightarrow> batch_result option outcome \<times> world" where
  "process_transactions e df_chunk bank_name transaction_type merchant_name w =
     (let w = log_events [Info_started_transactions bank_name transaction_type merchant_name] w in
      case map_of BANK_CODE_MAPPING bank_name of
        None \<Rightarrow> (Returned None, log_events [Error_no_bank_id bank_name] w)
      | Some bank_id \<Rightarrow>
          (case process_rows e bank_name bank_id transaction_type merchant_name (iterrows df_chunk)
                  \<lparr>bulk_data_transactions = [], success_count = 0, fail_count = 0\<rparr> df_chunk of
             (Inl x, df', evs) \<Rightarrow> (Raised x, log_events evs w)
           | (Inr acc, df', evs) \<Rightarrow>
               (let w = log_events evs w;
                    (committed, w) = atomic_bulk_create e (bulk_data_transactions acc) w;
                    w = (if committed then w else log_events [Error_transaction_failed] w);
                    fail_count = (if committed then fail_count acc
                                  else fail_count acc + length (bulk_data_transactions acc));
                    w = log_events [Debug_batch_complete (success_count acc) fail_count] w;
                    results = \<lparr>total_successful = success_count acc, total_failed = fail_count\<rparr>
                in (Returned (Some results), w\<lparr>cache := Some results\<rparr>))))"

section \<open>The chunk processor\<close>

text \<open>\<open>df_chunk.rename(columns=column_mapping, inplace=True)\<close>.\<close>

definition rename :: "(string \<times> string) list \<Rightarrow> frame \<Rightarrow> frame" where
  "rename m df =
     df\<lparr>cols := map (\<lambda>c. case map_of m (label c) of None \<Rightarrow> c | Some l \<Rightarrow> c\<lparr>label := l\<rparr>) (cols df)\<rparr>"

text \<open>\<open>.fillna(0)\<close> on one cell of a numeric column.\<close>

definition fillna0 :: "val \<Rightarrow> val" where
  "fillna0 v = (if v = Float NaN then Float (Fin 0) else v)"

text \<open>
  \<open>lambda x: 'CREDIT' if x > 0 else 'DEBIT' if x < 0 else None\<close> on one cell of the
  numeric column.
\<close>

definition credit_debit :: "val \<Rightarrow> val" where
  "credit_debit v =
     (case v of
        Float x \<Rightarrow> if float_gt0 x then Str ''CREDIT'' else if float_lt0 x then Str ''DEBIT'' else PyNone
      | _ \<Rightarrow> PyNone)"

text \<open>
  The cells of the series \<open>df[name]\<close>. It is read only right after
  \<open>convert_payable_to_float\<close> has returned, when one column has the label.
\<close>

definition series_cells :: "frame \<Rightarrow> string \<Rightarrow> val list" where
  "series_cells df name = (case getitem df name of One_column c \<Rightarrow> cells c | _ \<Rightarrow> [])"

text \<open>
  Lines 373 to 388 of \<open>process_dataframe_chunk\<close>, on the chunk with its cleaned labels:
  the renaming, the coercion of the two date columns and of the amount, and the
  classification for icici. The result is the chunk handed to \<open>process_transactions\<close>
  (or the exception raised) and the warnings logged.
\<close>

definition coerce_chunk ::
  "env \<Rightarrow> string \<Rightarrow> (string \<times> string) list \<Rightarrow> frame \<Rightarrow> (exn + frame) \<times> event list" where
  "coerce_chunk e bank_name mapping df0 =
     (let df = rename mapping df0 in
      case (if ''Transaction_Date'' \<in> set (df_columns df)
            then convert_column_to_datetime e df ''Transaction_Date'' else Inr (df, [])) of
        Inl x \<Rightarrow> (Inl x, [])
      | Inr (df1, ev1) \<Rightarrow>
          (case (if ''Settlement_Date'' \<in> set (df_columns df1)
                 then convert_column_to_datetime e df1 ''Settlement_Date'' else Inr (df1, [])) of
             Inl x \<Rightarrow> (Inl x, ev1)
           | Inr (df2, ev2) \<Rightarrow>
               if ''Payable_Merchant'' \<in> set (df_columns df2)
               then (case convert_payable_to_float e df2 ''Payable_Merchant'' of
                       Inl x \<Rightarrow> (Inl x, ev1 @ ev2)
                     | Inr df3 \<Rightarrow>
                         if bank_name = ''icici''
                         then (let df4 = setitem df3 ''Payable_Merchant'' NumericDtype
                                           (map fillna0 (series_cells df3 ''Payable_Merchant''));
                                   df5 = setitem df4 ''CREDIT_DEBIT_AMOUNT'' ObjectDtype
                                           (map credit_debit (series_cells df4 ''Payable_Merchant''))
                               in (Inr df5, ev1 @ ev2))
                         else (Inr df3, ev1 @ ev2))
               else (Inr df2, ev1 @ ev2)))"

text \<open>
  \<open>df_chunk.columns = [clean_column_name(col) for col in df_chunk.columns]\<close>.
\<close>

definition clean_columns :: "frame \<Rightarrow> frame" where
  "clean_columns df = df\<lparr>cols := map (\<lambda>c. c\<lparr>label := clean_column_name (label c)\<rparr>) (cols df)\<rparr>"

definition process_dataframe_chunk ::
  "env \<Rightarrow> frame \<Rightarrow> string \<Rightarrow> string \<Rightarrow> string \<Rightarrow> world \<Rightarrow> unit outcome \<times> world" where
  "process_dataframe_chunk e df_chunk bank_name transaction_type merchant_name w =
     (let w = log_events [Info_processing_chunk bank_name transaction_type merchant_name] w;
          df_chunk = clean_columns df_chunk
      in case resolve bank_name transaction_type of
           None \<Rightarrow> (Returned (), log_events [Error_no_valid_mapping bank_name transaction_type] w)
         | Some columns_mapping \<Rightarrow>
             (let expected = expected_columns columns_mapping in
              if \<forall>col \<in> set expected. col \<in> set (df_columns df_chunk)
              then (case coerce_chunk e bank_name (column_mapping columns_mapping) df_chunk of
                      (Inl x, evs) \<Rightarrow> (Raised x, log_events evs w)
                    | (Inr df, evs) \<Rightarrow>
                        (case process_transactions e df bank_name transaction_type merchant_name
                                (log_events evs w) of
                           (Returned results, w') \<Rightarrow> (Returned (), w')
                         | (Raised x, w') \<Rightarrow> (Raised x, w')))
              else (Returned (),
                    log_events [Error_missing_columns (set expected - set (df_columns df_chunk))
                                  bank_name transaction_type] w)))"

section \<open>Definitions used to state the properties\<close>

text \<open>
  The registry read as one table keyed by bank and transaction type, and the lookup order in
  the words of the specification: the exact entry, else the entry for \<open>both\<close>, else nothing.
\<close>

definition registry_entry :: "string \<Rightarrow> string \<Rightarrow> bank_schema option" where
  "registry_entry bank_name transaction_type =
     (case map_of BANK_MAPPINGS bank_name of
        None \<Rightarrow> None
      | Some m \<Rightarrow> map_of m transaction_type)"

definition spec_resolve :: "string \<Rightarrow> string \<Rightarrow> bank_schema option" where
  "spec_resolve bank_name transaction_type =
     (case registry_entry bank_name transaction_type of
        Some s \<Rightarrow> Some s
      | None \<Rightarrow> registry_entry bank_name ''both'')"

text \<open>Removing a header from a chunk: every column whose cleaned label is the header goes.\<close>

definition drop_header :: "string \<Rightarrow> frame \<Rightarrow> frame" where
  "drop_header h df = df\<lparr>cols := filter (\<lambda>c. clean_column_name (label c) \<noteq> h) (cols df)\<rparr>"

text \<open>
  The value of a plain signed decimal literal (an optional sign, digits, an optional point
  and digits), NaN for every other string. On such a literal \<open>pd.to_numeric\<close> returns the
  double nearest to this value; it accepts further spellings (exponents, infinities,
  surrounding blanks), which is why the pipeline takes the parser as a parameter. This
  reading is the parser of the examples.
\<close>

definition is_digit :: "char \<Rightarrow> bool" where
  "is_digit c = (c \<in> set ''0123456789'')"

definition digits_value :: "string \<Rightarrow> nat" where
  "digits_value ds = foldl (\<lambda>n c. 10 * n + (of_char c - 48)) 0 ds"

definition read_decimal :: "string \<Rightarrow> pyfloat" where
  "read_decimal s =
     (let (negative, body) =
            (case s of
               [] \<Rightarrow> (False, [])
             | c # r \<Rightarrow> if c = CHR ''-'' then (True, r)
                        else if c = CHR ''+'' then (False, r)
                        else (False, s));
          int_part = takeWhile is_digit body;
          after = dropWhile is_digit body;
          frac = (case after of
                    [] \<Rightarrow> Some []
                  | c # r \<Rightarrow> if c = CHR ''.'' \<and> list_all is_digit r then Some r else None)
      in case frac of
           None \<Rightarrow> NaN
         | Some fr \<Rightarrow>
             if int_part = [] \<and> fr = [] then NaN
             else Fin ((if negative then - 1 else 1)
                       * (real (digits_value int_part)
                          + real (digits_value fr) / 10 ^ length fr)))"

text \<open>
  The stores of the examples: one that inserts the whole batch, one that raises after
  writing the first record of the batch.
\<close>

definition inserting_store :: "transaction_data list \<Rightarrow> transaction_data list \<Rightarrow> store_result" where
  "inserting_store batch t = Stored (t @ batch)"

definition failing_store :: "transaction_data list \<Rightarrow> transaction_data list \<Rightarrow> store_result" where
  "failing_store batch t = Failed (t @ take 1 batch)"

definition example_env :: env where
  "example_env = \<lparr>pd_to_numeric = read_decimal,
                   pd_to_datetime = (\<lambda>column v. None),
                   bulk_create_transactions = inserting_store\<rparr>"

definition failing_env :: env where
  "failing_env = example_env\<lparr>bulk_create_transactions := failing_store\<rparr>"

definition empty_world :: world where
  "empty_world = \<lparr>table = [], cache = None, logged = [], bulk_calls = []\<rparr>"

text \<open>A chunk as read from a file: every column holds strings.\<close>

definition string_frame :: "nat list \<Rightarrow> (string \<times> string list) list \<Rightarrow> frame" where
  "string_frame idx columns_of =
     \<lparr>index = idx,
      cols = map (\<lambda>(l, vs). \<lparr>label = l, dtype = ObjectDtype, cells = map Str vs\<rparr>) columns_of\<rparr>"

text \<open>No date field of a transaction dictionary holds the null date.\<close>

definition no_sentinel :: "transaction_data \<Rightarrow> bool" where
  "no_sentinel d = list_all (\<lambda>field. map_of d field \<noteq> Some NaT) datetime_fields"

text \<open>A one-row chunk with the five headers of the karur_vysya booking report.\<close>

definition booking_chunk :: frame where
  "booking_chunk = string_frame [0]
     [(''TXN DATE'', [''2024-01-05'']), (''IRCTC ORDER NO.'', [''A1'']),
      (''BANK BOOKING REF.NO.'', [''B1'']), (''BOOKING AMOUNT'', [''1,234.50'']),
      (''CREDITED ON'', [''2024-01-06''])]"

text \<open>The characters the normalizer keeps outside the bracketed parts.\<close>

definition keep :: "char \<Rightarrow> bool" where
  "keep c = (\<not> is_space c \<and> c \<noteq> CHR ''.'' \<and> c \<noteq> CHR ''_'')"

text \<open>No opening bracket of the string has a closing bracket anywhere after it.\<close>

fun no_pair :: "string \<Rightarrow> bool" where
  "no_pair [] = True"
| "no_pair (c # cs) = ((c = CHR ''['' \<longrightarrow> CHR '']'' \<notin> set cs) \<and> no_pair cs)"

text \<open>The transaction types the loop of \<open>process_transactions\<close> accepts.\<close>

definition valid_type :: "string \<Rightarrow> bool" where
  "valid_type t = (t \<in> set [''booking'', ''refund'', ''both''])"

text \<open>The batches handed to the store between the world \<open>w\<close> and the later world \<open>w'\<close>.\<close>

definition new_batches :: "world \<Rightarrow> world \<Rightarrow> transaction_data list list" where
  "new_batches w w' = drop (length (bulk_calls w)) (bulk_calls w')"

text \<open>The counters of \<open>process_transactions\<close> before its loop.\<close>

definition start_counters :: counters where
  "start_counters = \<lparr>bulk_data_transactions = [], success_count = 0, fail_count = 0\<rparr>"

text \<open>
  A coerced chunk of two rows: the MID as a string, a date column whose first date did not
  parse, and the amount as a number.
\<close>

definition settled_chunk :: frame where
  "settled_chunk =
     \<lparr>index = [0, 1],
      cols = [\<lparr>label = ''MID'', dtype = ObjectDtype, cells = [Str ''M1'', Str ''M2'']\<rparr>,
              \<lparr>label = ''Transaction_Date'', dtype = DatetimeDtype,
               cells = [NaT, Timestamp 1704412800]\<rparr>,
              \<lparr>label = ''Payable_Merchant'', dtype = NumericDtype,
               cells = [Float (Fin 50), Float (Fin (- 50))]\<rparr>]\<rparr>"

text \<open>
  The chunk \<open>booking_chunk\<close> after \<open>coerce_chunk\<close> with the parsers of the examples, and
  the world in which \<open>process_dataframe_chunk\<close> then calls \<open>process_transactions\<close>.
\<close>

definition booking_coerced :: frame where
  "booking_coerced =
     \<lparr>index = [0],
      cols = [\<lparr>label = ''Transaction_Date'', dtype = DatetimeDtype, cells = [NaT]\<rparr>,
              \<lparr>label = ''Order_Id'', dtype = ObjectDtype, cells = [Str ''A1'']\<rparr>,
              \<lparr>label = ''Bank_Ref_id'', dtype = ObjectDtype, cells = [Str ''B1'']\<rparr>,
              \<lparr>label = ''Payable_Merchant'', dtype = NumericDtype, cells = [Float (Fin 1234.5)]\<rparr>,
              \<lparr>label = ''Settlement_Date'', dtype = DatetimeDtype, cells = [NaT]\<rparr>]\<rparr>"

definition booking_world :: world where
  "booking_world =
     log_events [Warning_could_not_parse_dates ''Transaction_Date'' [0],
                 Warning_could_not_parse_dates ''Settlement_Date'' [0]]
       (log_events [Info_processing_chunk ''karur_vysya'' ''booking'' ''m''] empty_world)"

text \<open>
  A chunk of four rows with the ten headers of the icici report, whose amounts are
  positive, negative, zero and not a number; and the same chunk after \<open>coerce_chunk\<close>
  with the parsers of the examples.
\<close>

definition icici_chunk :: frame where
  "icici_chunk = string_frame [0, 1, 2, 3]
     [(''POST DATE'', [''2024-01-06'', ''2024-01-06'', ''2024-01-06'', ''2024-01-06'']),
      (''FT NO.'', [''F1'', ''F2'', ''F3'', ''F4'']),
      (''SESSION ID [ASPD]'', [''S1'', ''S2'', ''S3'', ''S4'']),
      (''ARN NO'', [''A1'', ''A2'', ''A3'', ''A4'']),
      (''MID'', [''M1'', ''M2'', ''M3'', ''M4'']),
      (''TRANSACTION DATE'', [''2024-01-05'', ''2024-01-05'', ''2024-01-05'', ''2024-01-05'']),
      (''NET AMT'', [''50.00'', ''-50.00'', ''0.00'', ''abc'']),
      (''CARD NUMBER'', [''C1'', ''C2'', ''C3'', ''C4'']),
      (''CARD TYPE'', [''V'', ''V'', ''M'', ''M'']),
      (''TID'', [''T1'', ''T2'', ''T3'', ''T4''])]"

definition icici_coerced :: frame where
  "icici_coerced =
    \<lparr>index = [0, 1, 2, 3],
     cols =
       [\<lparr>label = ''Settlement_Date'', dtype = DatetimeDtype, cells = [NaT, NaT, NaT, NaT]\<rparr>,
        \<lparr>label = ''Transaction_Id'', dtype = ObjectDtype,
         cells = [Str ''F1'', Str ''F2'', Str ''F3'', Str ''F4'']\<rparr>,
        \<lparr>label = ''Order_Id'', dtype = ObjectDtype,
         cells = [Str ''S1'', Str ''S2'', Str ''S3'', Str ''S4'']\<rparr>,
        \<lparr>label = ''Arn_No'', dtype = ObjectDtype,
         cells = [Str ''A1'', Str ''A2'', Str ''A3'', Str ''A4'']\<rparr>,
        \<lparr>label = ''MID'', dtype = ObjectDtype,
         cells = [Str ''M1'', Str ''M2'', Str ''M3'', Str ''M4'']\<rparr>,
        \<lparr>label = ''Transaction_Date'', dtype = DatetimeDtype, cells = [NaT, NaT, NaT, NaT]\<rparr>,
        \<lparr>label = ''Payable_Merchant'', dtype = NumericDtype,
         cells = [Float (Fin 50), Float (Fin (- 50)), Float (Fin 0), Float (Fin 0)]\<rparr>,
        \<lparr>label = ''Card_No'', dtype = ObjectDtype,
         cells = [Str ''C1'', Str ''C2'', Str ''C3'', Str ''C4'']\<rparr>,
        \<lparr>label = ''Card_type'', dtype = ObjectDtype,
         cells = [Str ''V'', Str ''V'', Str ''M'', Str ''M'']\<rparr>,
        \<lparr>label = ''Tid'', dtype = ObjectDtype,
         cells = [Str ''T1'', Str ''T2'', Str ''T3'', Str ''T4'']\<rparr>,
        \<lparr>label = ''CREDIT_DEBIT_AMOUNT'', dtype = ObjectDtype,
         cells = [Str ''CREDIT'', Str ''DEBIT'', PyNone, PyNone]\<rparr>]\<rparr>"

section \<open>The column normalizer\<close>

lemma concat_split_acc: "concat (split_acc s w) = w @ filter (\<lambda>c. \<not> is_space c) s"
  by (induction s arbitrary: w) auto

lemma split_acc_nonempty: "w' \<in> set (split_acc s w) \<Longrightarrow> w' \<noteq> []"
  by (induction s arbitrary: w) (auto split: if_splits)

lemma join_split: "concat (filter (\<lambda>part. part \<noteq> []) (split s)) = filter (\<lambda>c. \<not> is_space c) s"
proof -
  have "filter (\<lambda>part. part \<noteq> []) (split s) = split s"
    unfolding split_def by (rule filter_True) (auto dest: split_acc_nonempty)
  then show ?thesis
    by (simp add: split_def concat_split_acc)
qed

lemma dropWhile_none: "\<forall>c \<in> set s. \<not> P c \<Longrightarrow> dropWhile P s = s"
  by (cases s) auto

lemma strip_no_space: "\<forall>c \<in> set s. \<not> is_space c \<Longrightarrow> strip s = s"
  by (simp add: strip_def dropWhile_none)

lemma clean_column_name_filter: "clean_column_name h = filter keep (sub_brackets h)"
proof -
  have "strip (filter (\<lambda>ch. ch \<notin> set [CHR ''.'', CHR ''_'']) (filter (\<lambda>c. \<not> is_space c) t))
        = filter (\<lambda>ch. ch \<notin> set [CHR ''.'', CHR ''_'']) (filter (\<lambda>c. \<not> is_space c) t)" for t
    by (rule strip_no_space) simp
  moreover have "keep = (\<lambda>c. \<not> is_space c \<and> c \<noteq> CHR ''.'' \<and> c \<noteq> CHR ''_'')"
    by (rule ext) (simp add: keep_def)
  ultimately show ?thesis
    by (simp add: clean_column_name_def join_split conj_commute conj_left_commute)
qed

lemma find_close_None: "CHR '']'' \<notin> set cs \<Longrightarrow> find_close cs = None"
  by (induction cs) auto

lemma find_close_line: "find_close cs = None \<Longrightarrow> CHR 0x0A \<notin> set cs \<Longrightarrow> CHR '']'' \<notin> set cs"
  by (induction cs) (auto split: if_splits)

lemma find_close_set: "find_close cs = Some rest \<Longrightarrow> set rest \<subseteq> set cs"
  by (induction cs) (auto split: if_splits)

lemma set_sub_brackets: "set (sub_brackets s) \<subseteq> set s"
proof (induction s rule: sub_brackets.induct)
  case 1
  then show ?case by simp
next
  case (2 c cs)
  show ?case
  proof (cases "c = CHR ''['' \<and> find_close cs \<noteq> None")
    case True
    then obtain rest where r: "find_close cs = Some rest" by auto
    with 2 True have "set (sub_brackets rest) \<subseteq> set rest" by simp
    also have "\<dots> \<subseteq> set cs" using r by (rule find_close_set)
    finally show ?thesis using True r by auto
  next
    case False
    with 2 show ?thesis by (cases "c = CHR ''[''") auto
  qed
qed

lemma no_pair_sub_brackets: "CHR 0x0A \<notin> set s \<Longrightarrow> no_pair (sub_brackets s)"
proof (induction s rule: sub_brackets.induct)
  case 1
  then show ?case by simp
next
  case (2 c cs)
  show ?case
  proof (cases "c = CHR ''[''")
    case True
    show ?thesis
    proof (cases "find_close cs")
      case None
      with 2 True have "CHR '']'' \<notin> set cs" by (auto dest: find_close_line)
      then have "CHR '']'' \<notin> set (sub_brackets cs)" using set_sub_brackets by blast
      with 2 True None show ?thesis by simp
    next
      case (Some rest)
      with 2 True have "CHR 0x0A \<notin> set rest" by (auto dest: find_close_set)
      with 2 True Some show ?thesis by simp
    qed
  next
    case False
    with 2 show ?thesis by simp
  qed
qed

lemma no_pair_filter: "no_pair s \<Longrightarrow> no_pair (filter p s)"
  by (induction s) auto

lemma sub_brackets_no_pair: "no_pair s \<Longrightarrow> sub_brackets s = s"
  by (induction s) (auto simp: find_close_None)

lemma no_bracket_no_pair: "CHR ''['' \<notin> set s \<Longrightarrow> no_pair s"
  by (induction s) auto

text \<open>
  On every header that has no line feed, and on every header that has no opening bracket,
  normalizing twice gives the same as normalizing once: \<open>clean_column_name\<close> deletes the
  bracketed parts, then the white space, then the characters \<open>.\<close> and \<open>_\<close>, and what is
  left has no bracketed part.
\<close>

lemma clean_column_name_idempotent:
  assumes "CHR 0x0A \<notin> set h \<or> CHR ''['' \<notin> set h"
  shows "clean_column_name (clean_column_name h) = clean_column_name h"
proof -
  from assms have "no_pair (sub_brackets h)"
  proof
    assume "CHR 0x0A \<notin> set h"
    then show ?thesis by (rule no_pair_sub_brackets)
  next
    assume "CHR ''['' \<notin> set h"
    then have "CHR ''['' \<notin> set (sub_brackets h)" using set_sub_brackets by blast
    then show ?thesis by (rule no_bracket_no_pair)
  qed
  then have "no_pair (filter keep (sub_brackets h))"
    by (rule no_pair_filter)
  then show ?thesis
    by (simp add: clean_column_name_filter sub_brackets_no_pair)
qed

lemma clean_column_name_idempotent_example:
  "CHR 0x0A \<notin> set ''SESSION ID [ASPD]''
   \<and> clean_column_name ''SESSION ID [ASPD]'' = ''SESSIONID''
   \<and> clean_column_name ''SESSIONID'' = ''SESSIONID''"
  using clean_column_name_idempotent [of "''SESSION ID [ASPD]''"]
  by (simp add: clean_column_name_filter keep_def is_space_def)

text \<open>
  Claim C7 (the normalizer is idempotent on every header string) is not met by the code on
  a header that has a line feed inside a bracketed annotation, as a header cell with a line
  break has. The pattern of \<open>column_cleaning_regex\<close> is compiled without \<open>re.DOTALL\<close>, so
  its dot does not match the line feed: the first pass leaves the annotation in place, the
  white-space pass then deletes the line feed, and a second normalization finds the
  annotation on one line and removes it. The header \<open>SESSION ID [AS\<close>, line feed, \<open>PD]\<close>
  is normalized to \<open>SESSIONID[ASPD]\<close>, and that to \<open>SESSIONID\<close>, which is also what the
  same header without the line feed is normalized to.
\<close>

theorem clean_column_name_not_idempotent:
  "clean_column_name (''SESSION ID [AS'' @ [CHR 0x0A] @ ''PD]'') = ''SESSIONID[ASPD]''
   \<and> clean_column_name ''SESSIONID[ASPD]'' = ''SESSIONID''
   \<and> clean_column_name (clean_column_name (''SESSION ID [AS'' @ [CHR 0x0A] @ ''PD]''))
        \<noteq> clean_column_name (''SESSION ID [AS'' @ [CHR 0x0A] @ ''PD]'')
   \<and> clean_column_name ''SESSION ID [ASPD]'' = ''SESSIONID''"
  by (simp add: clean_column_name_filter keep_def is_space_def)

section \<open>The schema registry\<close>

lemma resolve_in_registry:
  "resolve bank_name transaction_type = Some sch \<Longrightarrow>
   sch \<in> set (concat (map (\<lambda>(b, m). map snd m) BANK_MAPPINGS))"
  unfolding resolve_def Let_def
  by (auto split: if_splits option.splits dest!: map_of_SomeD) force+

lemma registry_fixed:
  "\<forall>sch \<in> set (concat (map (\<lambda>(b, m). map snd m) BANK_MAPPINGS)).
     \<forall>h \<in> set (expected_columns sch). clean_column_name h = h"
  by code_simp

lemma resolve_examples:
  "resolve ''sbi'' ''booking'' = None"
  "resolve ''icici'' ''refund'' = registry_entry ''icici'' ''both''"
  "resolve ''icici'' ''both'' = Some (the (registry_entry ''icici'' ''both''))"
  "resolve ''karur_vysya'' ''booking'' = Some (the (registry_entry ''karur_vysya'' ''booking''))"
  by (simp_all add: resolve_def registry_entry_def BANK_MAPPINGS_def)

lemma expected_columns_examples:
  "expected_columns (the (registry_entry ''karur_vysya'' ''booking''))
     = [''TXNDATE'', ''IRCTCORDERNO'', ''BANKBOOKINGREFNO'', ''BOOKINGAMOUNT'', ''CREDITEDON'']"
  "expected_columns (the (registry_entry ''icici'' ''both''))
     = [''POSTDATE'', ''FTNO'', ''SESSIONID'', ''ARNNO'', ''MID'', ''TRANSACTIONDATE'',
        ''NETAMT'', ''CARDNUMBER'', ''CARDTYPE'', ''TID'']"
  by code_simp+

text \<open>
  Claim C3. Whatever schema the lookup returns for a bank and a transaction type (the entry
  of the pair, or the entry \<open>both\<close> of the bank), every expected header of the schema, as
  \<open>process_dataframe_chunk\<close> computes it, is a fixed point of the normalizer.
\<close>

theorem registry_headers_normalized:
  "resolve bank_name transaction_type = Some sch \<Longrightarrow> h \<in> set (expected_columns sch)
     \<Longrightarrow> clean_column_name h = h"
  using resolve_in_registry registry_fixed by blast

theorem registry_headers_normalized_witness:
  "resolve ''icici'' ''both'' = Some (the (registry_entry ''icici'' ''both''))
   \<and> ''SESSIONID'' \<in> set (expected_columns (the (registry_entry ''icici'' ''both'')))
   \<and> clean_column_name ''SESSIONID'' = ''SESSIONID''"
  using registry_headers_normalized [of "''icici''" "''both''"
      "the (registry_entry ''icici'' ''both'')" "''SESSIONID''"]
  by (simp add: resolve_examples expected_columns_examples)

lemma resolve_spec: "resolve bank_name transaction_type = spec_resolve bank_name transaction_type"
  by (auto simp: resolve_def spec_resolve_def registry_entry_def Let_def split: option.splits)

section \<open>Rejected chunks\<close>

lemma no_mapping:
  "resolve bank_name transaction_type = None \<Longrightarrow>
   process_dataframe_chunk e df bank_name transaction_type merchant_name w
     = (Returned (), log_events [Info_processing_chunk bank_name transaction_type merchant_name,
                                 Error_no_valid_mapping bank_name transaction_type] w)"
  by (simp add: process_dataframe_chunk_def Let_def log_events_def)

lemma df_columns_clean: "df_columns (clean_columns df) = map clean_column_name (df_columns df)"
  by (simp add: df_columns_def clean_columns_def comp_def)

lemma missing_columns:
  assumes "resolve bank_name transaction_type = Some sch"
      and "\<not> set (expected_columns sch) \<subseteq> set (map clean_column_name (df_columns df))"
  shows "process_dataframe_chunk e df bank_name transaction_type merchant_name w
     = (Returned (),
        log_events [Info_processing_chunk bank_name transaction_type merchant_name,
                    Error_missing_columns
                      (set (expected_columns sch) - set (map clean_column_name (df_columns df)))
                      bank_name transaction_type] w)"
  using assms
  by (auto simp: process_dataframe_chunk_def Let_def log_events_def df_columns_clean)

lemma drop_header_cols:
  "set (map clean_column_name (df_columns (drop_header h df)))
     = set (map clean_column_name (df_columns df)) - {h}"
  by (auto simp: drop_header_def df_columns_def)

text \<open>
  Claim C8. The lookup of \<open>process_dataframe_chunk\<close> is the lookup order of the
  specification: the entry of the bank and transaction type, else the entry of the bank for
  \<open>both\<close>, else nothing. When it finds nothing, the call returns without raising, and all it
  does is log the error: the table, the cache slot and the batches handed to the store are
  as before.
\<close>

theorem schema_lookup_order:
  "resolve bank_name transaction_type = spec_resolve bank_name transaction_type
   \<and> (resolve bank_name transaction_type = None \<longrightarrow>
        process_dataframe_chunk e df bank_name transaction_type merchant_name w
          = (Returned (),
             log_events [Info_processing_chunk bank_name transaction_type merchant_name,
                         Error_no_valid_mapping bank_name transaction_type] w))"
  using resolve_spec no_mapping by blast

theorem schema_lookup_order_witness:
  "resolve ''sbi'' ''booking'' = None
   \<and> process_dataframe_chunk example_env (string_frame [0] [(''MID'', [''7''])])
        ''sbi'' ''booking'' ''m'' empty_world
       = (Returned (),
          \<lparr>table = [], cache = None,
           logged = [Info_processing_chunk ''sbi'' ''booking'' ''m'',
                     Error_no_valid_mapping ''sbi'' ''booking''],
           bulk_calls = []\<rparr>)"
  using schema_lookup_order [of "''sbi''" "''booking''" example_env
      "string_frame [0] [(''MID'', [''7''])]" "''m''" empty_world]
  by (simp add: resolve_examples log_events_def empty_world_def)

text \<open>
  Claim C4. With the schema the lookup returns: when an expected header is not among the
  cleaned headers of the chunk, the call returns without raising and all it does is log the
  set of missing headers (no record is built, nothing is handed to the store, the cache slot
  is as before); and when the chunk has every expected header, the chunk without the
  columns of any one expected header \<open>h\<close> is rejected in this way, with \<open>{h}\<close> as the
  missing set.
\<close>

theorem missing_header_rejects_chunk:
  assumes "resolve bank_name transaction_type = Some sch"
  shows "(\<not> set (expected_columns sch) \<subseteq> set (map clean_column_name (df_columns df)) \<longrightarrow>
            process_dataframe_chunk e df bank_name transaction_type merchant_name w
              = (Returned (),
                 log_events [Info_processing_chunk bank_name transaction_type merchant_name,
                             Error_missing_columns
                               (set (expected_columns sch) - set (map clean_column_name (df_columns df)))
                               bank_name transaction_type] w))
       \<and> (set (expected_columns sch) \<subseteq> set (map clean_column_name (df_columns df))
            \<and> h \<in> set (expected_columns sch) \<longrightarrow>
            process_dataframe_chunk e (drop_header h df) bank_name transaction_type merchant_name w
              = (Returned (),
                 log_events [Info_processing_chunk bank_name transaction_type merchant_name,
                             Error_missing_columns {h} bank_name transaction_type] w))"
proof (intro conjI impI)
  assume "\<not> set (expected_columns sch) \<subseteq> set (map clean_column_name (df_columns df))"
  with assms show "process_dataframe_chunk e df bank_name transaction_type merchant_name w
              = (Returned (),
                 log_events [Info_processing_chunk bank_name transaction_type merchant_name,
                             Error_missing_columns
                               (set (expected_columns sch) - set (map clean_column_name (df_columns df)))
                               bank_name transaction_type] w)"
    by (rule missing_columns)
next
  assume a: "set (expected_columns sch) \<subseteq> set (map clean_column_name (df_columns df))
            \<and> h \<in> set (expected_columns sch)"
  let ?d = "drop_header h df"
  have 1: "\<not> set (expected_columns sch) \<subseteq> set (map clean_column_name (df_columns ?d))"
    using a unfolding drop_header_cols by blast
  have 2: "set (expected_columns sch) - set (map clean_column_name (df_columns ?d)) = {h}"
    using a unfolding drop_header_cols by blast
  show "process_dataframe_chunk e ?d bank_name transaction_type merchant_name w
              = (Returned (),
                 log_events [Info_processing_chunk bank_name transaction_type merchant_name,
                             Error_missing_columns {h} bank_name transaction_type] w)"
    using missing_columns [OF assms 1] 2 by simp
qed

lemma booking_chunk_headers:
  "map clean_column_name (df_columns booking_chunk)
     = [''TXNDATE'', ''IRCTCORDERNO'', ''BANKBOOKINGREFNO'', ''BOOKINGAMOUNT'', ''CREDITEDON'']"
  by code_simp

theorem missing_header_rejects_chunk_witness:
  "resolve ''karur_vysya'' ''booking'' = Some (the (registry_entry ''karur_vysya'' ''booking''))
   \<and> set (expected_columns (the (registry_entry ''karur_vysya'' ''booking'')))
        \<subseteq> set (map clean_column_name (df_columns booking_chunk))
   \<and> ''TXNDATE'' \<in> set (expected_columns (the (registry_entry ''karur_vysya'' ''booking'')))
   \<and> process_dataframe_chunk example_env (drop_header ''TXNDATE'' booking_chunk)
        ''karur_vysya'' ''booking'' ''m'' empty_world
       = (Returned (),
          \<lparr>table = [], cache = None,
           logged = [Info_processing_chunk ''karur_vysya'' ''booking'' ''m'',
                     Error_missing_columns {''TXNDATE''} ''karur_vysya'' ''booking''],
           bulk_calls = []\<rparr>)"
  using missing_header_rejects_chunk [OF resolve_examples(4), where df = booking_chunk
      and h = "''TXNDATE''" and e = example_env and merchant_name = "''m''" and w = empty_world]
  by (simp add: resolve_examples expected_columns_examples booking_chunk_headers
      log_events_def empty_world_def)

section \<open>Rows and transaction dictionaries\<close>

lemma length_iterrows_from: "length (iterrows_from ks cs) = length ks"
  by (induction ks arbitrary: cs) auto

lemma length_iterrows: "length (iterrows df) = length (index df)"
  by (simp add: iterrows_def length_iterrows_from)

lemma iterrows_from_labels: "(k, r) \<in> set (iterrows_from ks cs) \<Longrightarrow> map fst r = map label cs"
  by (induction ks arbitrary: cs) (auto simp: comp_def)

lemma iterrows_labels: "(k, r) \<in> set (iterrows df) \<Longrightarrow> map fst r = df_columns df"
  by (simp add: iterrows_def df_columns_def iterrows_from_labels)

lemma row_get_absent: "name \<notin> set (map fst r) \<Longrightarrow> row_get r name = PyNone"
proof -
  assume "name \<notin> set (map fst r)"
  then have "filter (\<lambda>(l, v). l = name) r = []"
    by (force simp: filter_empty_conv)
  then show ?thesis by (simp add: row_get_def)
qed

lemma map_of_dict_update_other:
  "k' \<noteq> k \<Longrightarrow>
   map_of (map (\<lambda>(k', v'). if k' = k then (k', v) else (k', v')) d) k' = map_of d k'"
  by (induction d) auto

lemma map_of_dict_update_same:
  "k \<in> fst ` set d \<Longrightarrow>
   map_of (map (\<lambda>(k', v'). if k' = k then (k', v) else (k', v')) d) k = Some v"
  by (induction d) auto

lemma map_of_dict_set: "map_of (dict_set d k v) k' = (if k' = k then Some v else map_of d k')"
proof (cases "k \<in> fst ` set d")
  case True
  then show ?thesis
    by (simp add: dict_set_def map_of_dict_update_other map_of_dict_update_same)
next
  case False
  then have "map_of d k = None" by (simp add: map_of_eq_None_iff)
  with False show ?thesis by (auto simp: dict_set_def map_add_def split: option.splits)
qed

lemma handle_nat_fields_result:
  "handle_nat_fields fs d = (Inr d', evs) \<Longrightarrow>
   map_of d' k = (if k \<in> set fs \<and> map_of d k = Some NaT then Some PyNone else map_of d k)"
proof (induction fs arbitrary: d evs)
  case Nil
  then show ?case by simp
next
  case (Cons field todo)
  from Cons.prems obtain v where v: "map_of d field = Some v"
    by (cases "map_of d field") auto
  show ?case
  proof (cases "v = NaT")
    case True
    with Cons.prems v obtain evs' where
      "handle_nat_fields todo (dict_set d field PyNone) = (Inr d', evs')"
      by (auto split: prod.splits)
    from Cons.IH [OF this] v True show ?thesis
      by (auto simp: map_of_dict_set)
  next
    case False
    with Cons.prems v have "handle_nat_fields todo d = (Inr d', evs)" by simp
    from Cons.IH [OF this] v False show ?thesis by auto
  qed
qed

lemma build_keys:
  "build_transaction_data e b i t m r fs df = (Inr d, df', evs) \<Longrightarrow> map fst d = map fst fs"
proof (induction fs arbitrary: df d df' evs)
  case Nil
  then show ?case by simp
next
  case (Cons f fs)
  obtain key ex where f: "f = (key, ex)" by (cases f)
  from Cons.prems f obtain v df1 ev1 d1 df2 ev2 where
    "eval_field e b i t m r ex df = (Inr v, df1, ev1)"
    "build_transaction_data e b i t m r fs df1 = (Inr d1, df2, ev2)" "d = (key, v) # d1"
    by (auto split: prod.splits sum.splits)
  with Cons.IH f show ?case by auto
qed

lemma build_pure:
  "build_transaction_data e b i t m r fs df = (Inr d, df', evs) \<Longrightarrow>
   distinct (map fst fs) \<Longrightarrow> (k, ex) \<in> set fs \<Longrightarrow>
   (\<And>df1. eval_field e b i t m r ex df1 = (Inr v, df1, [])) \<Longrightarrow>
   map_of d k = Some v"
proof (induction fs arbitrary: df d df' evs)
  case Nil
  then show ?case by simp
next
  case (Cons f fs)
  obtain key ex' where f: "f = (key, ex')" by (cases f)
  from Cons.prems(1) f obtain v' df1 ev1 d1 df2 ev2 where
    ev: "eval_field e b i t m r ex' df = (Inr v', df1, ev1)" and
    bd: "build_transaction_data e b i t m r fs df1 = (Inr d1, df2, ev2)" and d: "d = (key, v') # d1"
    by (auto split: prod.splits sum.splits)
  show ?case
  proof (cases "k = key")
    case True
    with Cons.prems(2,3) f have "ex = ex'" by (auto simp: image_iff)
    with ev Cons.prems(4) [of df] have "v' = v" by simp
    with d True show ?thesis by simp
  next
    case False
    with Cons.prems(3) f have "(k, ex) \<in> set fs" by auto
    from Cons.IH [OF bd _ this Cons.prems(4)] Cons.prems(2) have "map_of d1 k = Some v" by simp
    with d False show ?thesis by simp
  qed
qed

lemma process_rows_result:
  assumes "process_rows e b i t m rows acc df = (Inr acc', df', evs)"
      and "\<forall>idx r df1 d df2 ev1 d' ev2. (idx, r) \<in> set rows \<longrightarrow>
             build_transaction_data e b i t m r transaction_fields df1 = (Inr d, df2, ev1) \<longrightarrow>
             handle_nat_in_datetime_fields d = (Inr d', ev2) \<longrightarrow> Q r d'"
  shows "\<exists>new. bulk_data_transactions acc' = bulk_data_transactions acc @ new
           \<and> list_all2 (\<lambda>(idx, r) d'. Q r d') (if valid_type t then rows else []) new
           \<and> success_count acc' = success_count acc + length new
           \<and> fail_count acc' + length new = fail_count acc + length rows"
  using assms
proof (induction rows arbitrary: acc df acc' df' evs)
  case Nil
  then show ?case by simp
next
  case (Cons row rows)
  obtain idx r where row: "row = (idx, r)" by (cases row)
  have step: "\<forall>idx r df1 d df2 ev1 d' ev2. (idx, r) \<in> set rows \<longrightarrow>
             build_transaction_data e b i t m r transaction_fields df1 = (Inr d, df2, ev1) \<longrightarrow>
             handle_nat_in_datetime_fields d = (Inr d', ev2) \<longrightarrow> Q r d'"
    using Cons.prems(2) by simp
  show ?case
  proof (cases "valid_type t")
    case False
    with Cons.prems(1) row obtain evs' where
      "process_rows e b i t m rows (acc\<lparr>fail_count := fail_count acc + 1\<rparr>) df = (Inr acc', df', evs')"
      by (auto simp: valid_type_def split: prod.splits)
    from Cons.IH [OF this step] False show ?thesis by auto
  next
    case True
    with Cons.prems(1) row obtain d df1 ev1 d' ev2 ev3 where
      bd: "build_transaction_data e b i t m r transaction_fields df = (Inr d, df1, ev1)" and
      hn: "handle_nat_in_datetime_fields d = (Inr d', ev2)" and
      rest: "process_rows e b i t m rows
               (acc\<lparr>bulk_data_transactions := bulk_data_transactions acc @ [d'],
                    success_count := success_count acc + 1\<rparr>) df1 = (Inr acc', df', ev3)"
      by (auto simp: valid_type_def split: prod.splits sum.splits)
    have q: "Q r d'" using Cons.prems(2) bd hn row by auto
    from Cons.IH [OF rest step] True obtain new where
      "bulk_data_transactions acc' = (bulk_data_transactions acc @ [d']) @ new"
      "list_all2 (\<lambda>(idx, r) d'. Q r d') rows new"
      "success_count acc' = success_count acc + 1 + length new"
      "fail_count acc' + length new = fail_count acc + length rows"
      by auto
    with q row True show ?thesis
      by (intro exI [of _ "d' # new"]) auto
  qed
qed

section \<open>The ways a call of the materializer ends\<close>

lemma pt_no_bank:
  "map_of BANK_CODE_MAPPING b = None \<Longrightarrow>
   process_transactions e df b t m w
     = (Returned None, log_events [Info_started_transactions b t m, Error_no_bank_id b] w)"
  by (simp add: process_transactions_def Let_def log_events_def)

lemma pt_raised:
  "map_of BANK_CODE_MAPPING b = Some i \<Longrightarrow>
   process_rows e b i t m (iterrows df) start_counters df = (Inl x, df', evs) \<Longrightarrow>
   process_transactions e df b t m w
     = (Raised x, log_events (Info_started_transactions b t m # evs) w)"
  by (simp add: process_transactions_def Let_def log_events_def start_counters_def)

lemma pt_failed:
  "map_of BANK_CODE_MAPPING b = Some i \<Longrightarrow>
   process_rows e b i t m (iterrows df) start_counters df = (Inr acc, df', evs) \<Longrightarrow>
   bulk_create_transactions e (bulk_data_transactions acc) (table w) = Failed t' \<Longrightarrow>
   process_transactions e df b t m w
     = (Returned (Some \<lparr>total_successful = success_count acc,
                         total_failed = fail_count acc + length (bulk_data_transactions acc)\<rparr>),
        w\<lparr>logged := logged w @ Info_started_transactions b t m # evs
                       @ [Error_transaction_failed,
                          Debug_batch_complete (success_count acc)
                            (fail_count acc + length (bulk_data_transactions acc))],
          bulk_calls := bulk_calls w @ [bulk_data_transactions acc],
          cache := Some \<lparr>total_successful = success_count acc,
                         total_failed = fail_count acc + length (bulk_data_transactions acc)\<rparr>\<rparr>)"
  by (simp add: process_transactions_def Let_def log_events_def start_counters_def
      atomic_bulk_create_def)

lemma pt_stored:
  "map_of BANK_CODE_MAPPING b = Some i \<Longrightarrow>
   process_rows e b i t m (iterrows df) start_counters df = (Inr acc, df', evs) \<Longrightarrow>
   bulk_create_transactions e (bulk_data_transactions acc) (table w) = Stored t' \<Longrightarrow>
   process_transactions e df b t m w
     = (Returned (Some \<lparr>total_successful = success_count acc, total_failed = fail_count acc\<rparr>),
        w\<lparr>logged := logged w @ Info_started_transactions b t m # evs
                       @ [Debug_batch_complete (success_count acc) (fail_count acc)],
          bulk_calls := bulk_calls w @ [bulk_data_transactions acc],
          table := t',
          cache := Some \<lparr>total_successful = success_count acc, total_failed = fail_count acc\<rparr>\<rparr>)"
  by (simp add: process_transactions_def Let_def log_events_def start_counters_def
      atomic_bulk_create_def)

text \<open>The ways a call of \<open>process_transactions\<close> ends.\<close>

lemma pt_cases:
  obtains
    (no_bank) "map_of BANK_CODE_MAPPING b = None"
      "process_transactions e df b t m w
         = (Returned None, log_events [Info_started_transactions b t m, Error_no_bank_id b] w)"
  | (raised) i x df' evs where "map_of BANK_CODE_MAPPING b = Some i"
      "process_rows e b i t m (iterrows df) start_counters df = (Inl x, df', evs)"
      "process_transactions e df b t m w
         = (Raised x, log_events (Info_started_transactions b t m # evs) w)"
  | (committed) i acc df' evs res w' where "map_of BANK_CODE_MAPPING b = Some i"
      "process_rows e b i t m (iterrows df) start_counters df = (Inr acc, df', evs)"
      "process_transactions e df b t m w = (Returned (Some res), w')"
      "bulk_calls w' = bulk_calls w @ [bulk_data_transactions acc]"
      "cache w' = Some res"
      "total_successful res = success_count acc"
      "case bulk_create_transactions e (bulk_data_transactions acc) (table w) of
         Stored t' \<Rightarrow> table w' = t' \<and> total_failed res = fail_count acc
       | Failed t' \<Rightarrow> table w' = table w
           \<and> total_failed res = fail_count acc + length (bulk_data_transactions acc)"
proof (cases "map_of BANK_CODE_MAPPING b")
  case None
  then show ?thesis using no_bank pt_no_bank by blast
next
  case (Some i)
  obtain r df' evs where pr: "process_rows e b i t m (iterrows df) start_counters df = (r, df', evs)"
    by (cases "process_rows e b i t m (iterrows df) start_counters df") auto
  show ?thesis
  proof (cases r)
    case (Inl x)
    with Some pr show ?thesis using raised pt_raised by blast
  next
    case (Inr acc)
    show ?thesis
    proof (cases "bulk_create_transactions e (bulk_data_transactions acc) (table w)")
      case (Stored t')
      show ?thesis
        by (rule committed [OF Some pr [unfolded Inr] pt_stored [OF Some pr [unfolded Inr] Stored]])
           (simp_all add: Stored)
    next
      case (Failed t')
      show ?thesis
        by (rule committed [OF Some pr [unfolded Inr] pt_failed [OF Some pr [unfolded Inr] Failed]])
           (simp_all add: Failed)
    qed
  qed
qed

lemma start_rows:
  assumes "process_rows e b i t m rows start_counters df = (Inr acc, df', evs)"
      and "\<forall>idx r df1 d df2 ev1 d' ev2. (idx, r) \<in> set rows \<longrightarrow>
             build_transaction_data e b i t m r transaction_fields df1 = (Inr d, df2, ev1) \<longrightarrow>
             handle_nat_in_datetime_fields d = (Inr d', ev2) \<longrightarrow> Q r d'"
  shows "list_all2 (\<lambda>(idx, r) d'. Q r d') (if valid_type t then rows else [])
           (bulk_data_transactions acc)
         \<and> success_count acc = length (bulk_data_transactions acc)
         \<and> fail_count acc + length (bulk_data_transactions acc) = length rows"
  using process_rows_result [OF assms] by (auto simp: start_counters_def)

section \<open>Counts after a failed commit\<close>

text \<open>
  What a call publishes after a failed commit. When \<open>process_transactions\<close> returns a
  result and the store raised on the batch it was handed, every row of the chunk is in the
  failed count, and every materialized row (all the rows when the transaction type is
  booking, refund or both, none otherwise) is in the successful count as well; this result
  is what the cache slot holds, and the table is as it was before the call.
\<close>

lemma failed_commit_counts:
  assumes "process_transactions e df_chunk bank_name transaction_type merchant_name w
             = (Returned (Some results), w')"
      and "bulk_create_transactions e (last (bulk_calls w')) (table w) = Failed t"
  shows "results = \<lparr>total_successful = (if valid_type transaction_type
                                         then length (index df_chunk) else 0),
                    total_failed = length (index df_chunk)\<rparr>
         \<and> cache w' = Some results \<and> table w' = table w"
proof (cases rule: pt_cases [of bank_name e df_chunk transaction_type merchant_name w])
  case no_bank
  with assms(1) show ?thesis by simp
next
  case (raised i x df' evs)
  with assms(1) show ?thesis by simp
next
  case (committed i acc df' evs res w'')
  with assms(1) have eq: "res = results" "w'' = w'" by simp_all
  from committed(4) assms(2) eq have f: "bulk_create_transactions e (bulk_data_transactions acc) (table w) = Failed t"
    by simp
  from start_rows [OF committed(2), of "\<lambda>r d. True"]
  have len: "length (bulk_data_transactions acc) = (if valid_type transaction_type then length (index df_chunk) else 0)"
    and cnt: "success_count acc = length (bulk_data_transactions acc)"
      "fail_count acc + length (bulk_data_transactions acc) = length (index df_chunk)"
    by (auto simp: length_iterrows dest: list_all2_lengthD)
  from committed(5,6,7) f eq len cnt show ?thesis
    by (cases results) auto
qed

lemma failed_commit_example:
  "fst (process_transactions failing_env settled_chunk ''hdfc'' ''booking'' ''m'' empty_world)
     = Returned (Some \<lparr>total_successful = 2, total_failed = 2\<rparr>)"
  "cache (snd (process_transactions failing_env settled_chunk ''hdfc'' ''booking'' ''m'' empty_world))
     = Some \<lparr>total_successful = 2, total_failed = 2\<rparr>"
  "table (snd (process_transactions failing_env settled_chunk ''hdfc'' ''booking'' ''m'' empty_world)) = []"
  "Error_transaction_failed
     \<in> set (logged (snd (process_transactions failing_env settled_chunk ''hdfc'' ''booking'' ''m'' empty_world)))"
  by code_simp+

lemma failed_commit_counts_example:
  "process_transactions failing_env settled_chunk ''hdfc'' ''booking'' ''m'' empty_world
     = (Returned (Some \<lparr>total_successful = 2, total_failed = 2\<rparr>),
        snd (process_transactions failing_env settled_chunk ''hdfc'' ''booking'' ''m'' empty_world))
   \<and> bulk_create_transactions failing_env
        (last (bulk_calls (snd (process_transactions failing_env settled_chunk
                                  ''hdfc'' ''booking'' ''m'' empty_world))))
        (table empty_world)
       = Failed (take 1 (last (bulk_calls (snd (process_transactions failing_env settled_chunk
                                  ''hdfc'' ''booking'' ''m'' empty_world)))))
   \<and> valid_type ''booking''
   \<and> length (index settled_chunk) = 2
   \<and> table (snd (process_transactions failing_env settled_chunk ''hdfc'' ''booking'' ''m'' empty_world))
       = table empty_world"
proof -
  let ?w = "snd (process_transactions failing_env settled_chunk ''hdfc'' ''booking'' ''m'' empty_world)"
  have 1: "process_transactions failing_env settled_chunk ''hdfc'' ''booking'' ''m'' empty_world
             = (Returned (Some \<lparr>total_successful = 2, total_failed = 2\<rparr>), ?w)"
    using failed_commit_example(1) by (metis prod.collapse)
  have 2: "bulk_create_transactions failing_env (last (bulk_calls ?w)) (table empty_world)
             = Failed (take 1 (last (bulk_calls ?w)))"
    by (simp add: failing_env_def failing_store_def empty_world_def)
  from failed_commit_counts [OF 1 2] 1 2 show ?thesis
    by (simp add: valid_type_def settled_chunk_def)
qed

text \<open>
  Claim C1 (after a failed commit the published result is 0 successful and N failed, N the
  number of rows attempted, and no record of the batch persists) is not met by the code in
  its counts. On a chunk of two rows of type booking for the bank hdfc, with a store that
  raises inside the atomic block, the call returns, the commit failure is logged, the table
  stays empty, and the result returned and published in the cache is 2 successful and 2
  failed. The loop adds a row to the successful count when its dictionary is built; the
  handler of the failed commit adds the size of the batch to the failed count and leaves the
  successful count as it is, so every row of the batch is counted twice. A row that fails
  inside the loop is counted once, as failed.
\<close>

theorem failed_commit_reports_successes:
  "length (index settled_chunk) = 2
   \<and> Error_transaction_failed
       \<in> set (logged (snd (process_transactions failing_env settled_chunk
                              ''hdfc'' ''booking'' ''m'' empty_world)))
   \<and> table (snd (process_transactions failing_env settled_chunk ''hdfc'' ''booking'' ''m'' empty_world))
       = []
   \<and> fst (process_transactions failing_env settled_chunk ''hdfc'' ''booking'' ''m'' empty_world)
       = Returned (Some \<lparr>total_successful = 2, total_failed = 2\<rparr>)
   \<and> cache (snd (process_transactions failing_env settled_chunk ''hdfc'' ''booking'' ''m'' empty_world))
       = Some \<lparr>total_successful = 2, total_failed = 2\<rparr>
   \<and> cache (snd (process_transactions failing_env settled_chunk ''hdfc'' ''booking'' ''m'' empty_world))
       \<noteq> Some \<lparr>total_successful = 0, total_failed = 2\<rparr>"
  by (simp add: failed_commit_example) (simp add: settled_chunk_def)

section \<open>The MID field\<close>

lemma list_all2_map_eq: "list_all2 (\<lambda>x y. g y = f x) xs ys \<Longrightarrow> map g ys = map f xs"
  by (induction rule: list_all2_induct) auto

lemma distinct_transaction_fields: "distinct (map fst transaction_fields)"
  by code_simp

lemma handle_nat_other:
  "handle_nat_in_datetime_fields d = (Inr d', evs) \<Longrightarrow> k \<notin> set datetime_fields \<Longrightarrow>
   map_of d' k = map_of d k"
  by (simp add: handle_nat_in_datetime_fields_def handle_nat_fields_result)

text \<open>
  Claim C2, as amended. When the bank has no registered numeric code,
  \<open>process_transactions\<close> logs the error and returns nothing, before any row is visited:
  no record is built, nothing is handed to the store and no result is published. When the
  bank has a code and the call returns a result, the records of the batch handed to the
  store are those of the rows in order (none when the transaction type is not booking,
  refund or both), and the MID of each is the MID of its row when the bank is one of
  \<open>banks_with_mid_override\<close>, else the code of the bank.
\<close>

theorem mid_field_and_missing_bank_code:
  "(map_of BANK_CODE_MAPPING bank_name = None \<longrightarrow>
      process_transactions e df_chunk bank_name transaction_type merchant_name w
        = (Returned None,
           log_events [Info_started_transactions bank_name transaction_type merchant_name,
                       Error_no_bank_id bank_name] w))
   \<and> (map_of BANK_CODE_MAPPING bank_name = Some bank_id
        \<and> process_transactions e df_chunk bank_name transaction_type merchant_name w
            = (Returned (Some results), w') \<longrightarrow>
      map (\<lambda>d. map_of d ''MID'') (last (bulk_calls w'))
        = map (\<lambda>(idx, r). Some (if bank_name \<in> set banks_with_mid_override
                                 then row_get r ''MID'' else IntV bank_id))
            (if valid_type transaction_type then iterrows df_chunk else []))"
proof (intro conjI impI)
  assume "map_of BANK_CODE_MAPPING bank_name = None"
  then show "process_transactions e df_chunk bank_name transaction_type merchant_name w
        = (Returned None,
           log_events [Info_started_transactions bank_name transaction_type merchant_name,
                       Error_no_bank_id bank_name] w)"
    by (rule pt_no_bank)
next
  assume a: "map_of BANK_CODE_MAPPING bank_name = Some bank_id
        \<and> process_transactions e df_chunk bank_name transaction_type merchant_name w
            = (Returned (Some results), w')"
  let ?mid = "\<lambda>r. if bank_name \<in> set banks_with_mid_override then row_get r ''MID'' else IntV bank_id"
  show "map (\<lambda>d. map_of d ''MID'') (last (bulk_calls w'))
        = map (\<lambda>(idx, r). Some (?mid r))
            (if valid_type transaction_type then iterrows df_chunk else [])"
  proof (cases rule: pt_cases [of bank_name e df_chunk transaction_type merchant_name w])
    case no_bank
    with a show ?thesis by simp
  next
    case (raised i x df' evs)
    with a show ?thesis by simp
  next
    case (committed i acc df' evs res w'')
    with a have eq: "i = bank_id" "w'' = w'" by simp_all
    have step: "\<forall>idx r df1 d df2 ev1 d' ev2. (idx, r) \<in> set (iterrows df_chunk) \<longrightarrow>
             build_transaction_data e bank_name i transaction_type merchant_name r transaction_fields df1
               = (Inr d, df2, ev1) \<longrightarrow>
             handle_nat_in_datetime_fields d = (Inr d', ev2) \<longrightarrow> map_of d' ''MID'' = Some (?mid r)"
    proof (intro allI impI)
      fix idx r df1 d df2 ev1 d' ev2
      assume bd: "build_transaction_data e bank_name i transaction_type merchant_name r
                    transaction_fields df1 = (Inr d, df2, ev1)"
        and hn: "handle_nat_in_datetime_fields d = (Inr d', ev2)"
      have "map_of d ''MID'' = Some (?mid r)"
        by (rule build_pure [OF bd distinct_transaction_fields, of _ Mid_expr])
           (simp_all add: transaction_fields_def eq)
      moreover have "map_of d' ''MID'' = map_of d ''MID''"
        by (rule handle_nat_other [OF hn]) (simp add: datetime_fields_def)
      ultimately show "map_of d' ''MID'' = Some (?mid r)" by simp
    qed
    from start_rows [OF committed(2) step]
    have "list_all2 (\<lambda>(idx, r) d'. map_of d' ''MID'' = Some (?mid r))
            (if valid_type transaction_type then iterrows df_chunk else [])
            (bulk_data_transactions acc)"
      by simp
    then have "list_all2 (\<lambda>x d'. map_of d' ''MID'' = (case x of (idx, r) \<Rightarrow> Some (?mid r)))
            (if valid_type transaction_type then iterrows df_chunk else [])
            (bulk_data_transactions acc)"
      by (rule list_all2_mono) auto
    then have "map (\<lambda>d. map_of d ''MID'') (bulk_data_transactions acc)
           = map (\<lambda>(idx, r). Some (?mid r))
               (if valid_type transaction_type then iterrows df_chunk else [])"
      by (rule list_all2_map_eq)
    with committed(4) eq show ?thesis by simp
  qed
qed

text \<open>
  Claim C2, as stated, fails for the bank \<open>indus\<close>, which has no registered code: on a chunk
  of two rows the call logs one error and returns nothing; no row is counted as failed, the
  rest of the chunk is not processed and the cache slot stays empty.
\<close>

theorem missing_bank_code_drops_chunk:
  "map_of BANK_CODE_MAPPING ''indus'' = None
   \<and> length (iterrows settled_chunk) = 2
   \<and> process_transactions example_env settled_chunk ''indus'' ''booking'' ''m'' empty_world
       = (Returned None,
          \<lparr>table = [], cache = None,
           logged = [Info_started_transactions ''indus'' ''booking'' ''m'',
                     Error_no_bank_id ''indus''],
           bulk_calls = []\<rparr>)"
  by (simp add: pt_no_bank BANK_CODE_MAPPING_def log_events_def empty_world_def length_iterrows)
     (simp add: settled_chunk_def)

lemma mid_examples:
  "fst (process_transactions example_env settled_chunk ''karur_vysya'' ''booking'' ''m'' empty_world)
     = Returned (Some \<lparr>total_successful = 2, total_failed = 0\<rparr>)"
  "map (\<lambda>d. map_of d ''MID'')
     (last (bulk_calls (snd (process_transactions example_env settled_chunk
                               ''karur_vysya'' ''booking'' ''m'' empty_world))))
     = [Some (IntV 40), Some (IntV 40)]"
  "fst (process_transactions example_env settled_chunk ''hdfc'' ''booking'' ''m'' empty_world)
     = Returned (Some \<lparr>total_successful = 2, total_failed = 0\<rparr>)"
  "map (\<lambda>d. map_of d ''MID'')
     (last (bulk_calls (snd (process_transactions example_env settled_chunk
                               ''hdfc'' ''booking'' ''m'' empty_world))))
     = [Some (Str ''M1''), Some (Str ''M2'')]"
  by code_simp+

theorem mid_field_and_missing_bank_code_witness:
  "map_of BANK_CODE_MAPPING ''karur_vysya'' = Some 40
   \<and> process_transactions example_env settled_chunk ''karur_vysya'' ''booking'' ''m'' empty_world
       = (Returned (Some \<lparr>total_successful = 2, total_failed = 0\<rparr>),
          snd (process_transactions example_env settled_chunk ''karur_vysya'' ''booking'' ''m'' empty_world))
   \<and> map (\<lambda>d. map_of d ''MID'')
        (last (bulk_calls (snd (process_transactions example_env settled_chunk
                                  ''karur_vysya'' ''booking'' ''m'' empty_world))))
       = [Some (IntV 40), Some (IntV 40)]
   \<and> map_of BANK_CODE_MAPPING ''indus'' = None
   \<and> process_transactions example_env settled_chunk ''indus'' ''booking'' ''m'' empty_world
       = (Returned None,
          log_events [Info_started_transactions ''indus'' ''booking'' ''m'',
                      Error_no_bank_id ''indus''] empty_world)"
proof -
  let ?w = "snd (process_transactions example_env settled_chunk ''karur_vysya'' ''booking'' ''m'' empty_world)"
  have 1: "process_transactions example_env settled_chunk ''karur_vysya'' ''booking'' ''m'' empty_world
             = (Returned (Some \<lparr>total_successful = 2, total_failed = 0\<rparr>), ?w)"
    using mid_examples(1) by (metis prod.collapse)
  have 2: "map_of BANK_CODE_MAPPING ''karur_vysya'' = Some 40"
    "map_of BANK_CODE_MAPPING ''indus'' = None"
    by (simp_all add: BANK_CODE_MAPPING_def)
  from mid_field_and_missing_bank_code [where bank_name = "''karur_vysya''" and bank_id = 40
      and e = example_env and df_chunk = settled_chunk and transaction_type = "''booking''"
      and merchant_name = "''m''" and w = empty_world and w' = ?w
      and results = "\<lparr>total_successful = 2, total_failed = 0\<rparr>"]
    mid_field_and_missing_bank_code [where bank_name = "''indus''"
      and e = example_env and df_chunk = settled_chunk and transaction_type = "''booking''"
      and merchant_name = "''m''" and w = empty_world]
    1 2 mid_examples(2)
  show ?thesis by simp
qed

section \<open>Batches handed to the store\<close>

lemma new_batches_same: "bulk_calls w' = bulk_calls w \<Longrightarrow> new_batches w w' = []"
  by (simp add: new_batches_def)

lemma new_batches_one: "bulk_calls w' = bulk_calls w @ [b] \<Longrightarrow> new_batches w w' = [b]"
  by (simp add: new_batches_def)

lemma new_batches_cong: "bulk_calls w1 = bulk_calls w \<Longrightarrow> new_batches w1 w' = new_batches w w'"
  by (simp add: new_batches_def)

lemma pt_new_batches:
  assumes "process_transactions e df b t m w = (out, w')"
  shows "new_batches w w' = []
         \<or> (\<exists>i acc df' evs. map_of BANK_CODE_MAPPING b = Some i
              \<and> process_rows e b i t m (iterrows df) start_counters df = (Inr acc, df', evs)
              \<and> new_batches w w' = [bulk_data_transactions acc])"
proof (cases rule: pt_cases [of b e df t m w])
  case no_bank
  with assms have "bulk_calls w' = bulk_calls w" by (auto simp: log_events_def)
  then show ?thesis by (simp add: new_batches_same)
next
  case (raised i x df' evs)
  with assms have "bulk_calls w' = bulk_calls w" by (auto simp: log_events_def)
  then show ?thesis by (simp add: new_batches_same)
next
  case (committed i acc df' evs res w'')
  with assms have "bulk_calls w' = bulk_calls w @ [bulk_data_transactions acc]" by simp
  then have "new_batches w w' = [bulk_data_transactions acc]" by (rule new_batches_one)
  with committed(1,2) show ?thesis by blast
qed

lemma pdc_new_batches:
  assumes "process_dataframe_chunk e df b t m w = (out, w')"
  shows "new_batches w w' = []
         \<or> (\<exists>sch df2 evs w1 out2. resolve b t = Some sch
              \<and> coerce_chunk e b (column_mapping sch) (clean_columns df) = (Inr df2, evs)
              \<and> bulk_calls w1 = bulk_calls w
              \<and> process_transactions e df2 b t m w1 = (out2, w'))"
proof (cases "resolve b t")
  case None
  with assms have "bulk_calls w' = bulk_calls w"
    by (auto simp: process_dataframe_chunk_def Let_def log_events_def)
  then show ?thesis by (simp add: new_batches_same)
next
  case (Some sch)
  let ?w0 = "log_events [Info_processing_chunk b t m] w"
  show ?thesis
  proof (cases "\<forall>col \<in> set (expected_columns sch). col \<in> set (df_columns (clean_columns df))")
    case False
    with assms Some have "bulk_calls w' = bulk_calls w"
      by (auto simp: process_dataframe_chunk_def Let_def log_events_def)
    then show ?thesis by (simp add: new_batches_same)
  next
    case True
    obtain r evs where c: "coerce_chunk e b (column_mapping sch) (clean_columns df) = (r, evs)"
      by (cases "coerce_chunk e b (column_mapping sch) (clean_columns df)") auto
    show ?thesis
    proof (cases r)
      case (Inl x)
      with assms Some True c have "bulk_calls w' = bulk_calls w"
        by (auto simp: process_dataframe_chunk_def Let_def log_events_def)
      then show ?thesis by (simp add: new_batches_same)
    next
      case (Inr df2)
      obtain out2 w2 where p: "process_transactions e df2 b t m (log_events evs ?w0) = (out2, w2)"
        by (cases "process_transactions e df2 b t m (log_events evs ?w0)") auto
      with assms Some True c Inr have "w' = w2"
        by (auto simp: process_dataframe_chunk_def Let_def split: outcome.splits)
      moreover have "bulk_calls (log_events evs ?w0) = bulk_calls w"
        by (simp add: log_events_def)
      ultimately show ?thesis using Some c Inr p by blast
    qed
  qed
qed

section \<open>Null dates\<close>

lemma handled_no_sentinel:
  "handle_nat_in_datetime_fields d = (Inr d', evs) \<Longrightarrow> no_sentinel d'"
  by (auto simp: no_sentinel_def list_all_iff handle_nat_in_datetime_fields_def
      handle_nat_fields_result)

lemma pt_no_sentinel:
  assumes "process_transactions e df b t m w = (out, w')"
      and "batch \<in> set (new_batches w w')" and "d \<in> set batch"
  shows "no_sentinel d"
proof -
  from pt_new_batches [OF assms(1)] assms(2) obtain i acc df' evs where
    pr: "process_rows e b i t m (iterrows df) start_counters df = (Inr acc, df', evs)"
    and nb: "batch = bulk_data_transactions acc"
    by auto
  have "list_all2 (\<lambda>(idx, r) d'. no_sentinel d') (if valid_type t then iterrows df else [])
          (bulk_data_transactions acc)"
    using start_rows [OF pr, of "\<lambda>r d'. no_sentinel d'"] handled_no_sentinel by blast
  then have "\<forall>d' \<in> set (bulk_data_transactions acc). no_sentinel d'"
    by (auto simp: list_all2_conv_all_nth in_set_conv_nth split: prod.splits)
  with assms(3) nb show ?thesis by simp
qed

lemma pdc_no_sentinel:
  assumes "process_dataframe_chunk e df b t m w = (out, w')"
      and "batch \<in> set (new_batches w w')" and "d \<in> set batch"
  shows "no_sentinel d"
proof -
  from pdc_new_batches [OF assms(1)] assms(2) obtain df2 w1 out2 where
    "bulk_calls w1 = bulk_calls w" "process_transactions e df2 b t m w1 = (out2, w')"
    by auto
  with assms(2,3) show ?thesis
    using pt_no_sentinel new_batches_cong by metis
qed

text \<open>
  Claim C6. \<open>handle_nat_in_datetime_fields\<close> changes a transaction dictionary exactly at
  the five date fields that hold the null date, which it sets to \<open>None\<close>; and in every
  record of a batch that \<open>process_transactions\<close> (called directly or by
  \<open>process_dataframe_chunk\<close>) hands to the store, none of the five date fields holds
  the null date.
\<close>

theorem null_dates_rewritten:
  "(handle_nat_in_datetime_fields d = (Inr d', evs) \<longrightarrow>
      map_of d' k = (if k \<in> set datetime_fields \<and> map_of d k = Some NaT
                     then Some PyNone else map_of d k))
   \<and> (process_transactions e df_chunk bank_name transaction_type merchant_name w = (out, w')
        \<and> batch \<in> set (new_batches w w') \<and> txn \<in> set batch \<longrightarrow> no_sentinel txn)
   \<and> (process_dataframe_chunk e df_chunk bank_name transaction_type merchant_name w = (out2, w2)
        \<and> batch2 \<in> set (new_batches w w2) \<and> txn2 \<in> set batch2 \<longrightarrow> no_sentinel txn2)"
  using handle_nat_fields_result [of datetime_fields d d' evs k] pt_no_sentinel pdc_no_sentinel
  unfolding handle_nat_in_datetime_fields_def by blast

lemma null_date_example:
  "new_batches empty_world
     (snd (process_transactions example_env settled_chunk ''hdfc'' ''booking'' ''m'' empty_world)) \<noteq> []"
  "hd (new_batches empty_world
     (snd (process_transactions example_env settled_chunk ''hdfc'' ''booking'' ''m'' empty_world))) \<noteq> []"
  "map (\<lambda>d. map_of d ''Transaction_Date'')
     (hd (new_batches empty_world
            (snd (process_transactions example_env settled_chunk ''hdfc'' ''booking'' ''m'' empty_world))))
     = [Some PyNone, Some (Timestamp 1704412800)]"
  "row_get (snd (hd (iterrows settled_chunk))) ''Transaction_Date'' = NaT"
  by code_simp+

theorem null_dates_rewritten_witness:
  "row_get (snd (hd (iterrows settled_chunk))) ''Transaction_Date'' = NaT
   \<and> hd (new_batches empty_world
         (snd (process_transactions example_env settled_chunk ''hdfc'' ''booking'' ''m'' empty_world)))
     \<in> set (new_batches empty_world
         (snd (process_transactions example_env settled_chunk ''hdfc'' ''booking'' ''m'' empty_world)))
   \<and> hd (hd (new_batches empty_world
         (snd (process_transactions example_env settled_chunk ''hdfc'' ''booking'' ''m'' empty_world))))
     \<in> set (hd (new_batches empty_world
         (snd (process_transactions example_env settled_chunk ''hdfc'' ''booking'' ''m'' empty_world))))
   \<and> no_sentinel (hd (hd (new_batches empty_world
         (snd (process_transactions example_env settled_chunk ''hdfc'' ''booking'' ''m'' empty_world)))))
   \<and> map (\<lambda>d. map_of d ''Transaction_Date'')
     (hd (new_batches empty_world
            (snd (process_transactions example_env settled_chunk ''hdfc'' ''booking'' ''m'' empty_world))))
     = [Some PyNone, Some (Timestamp 1704412800)]"
proof -
  let ?p = "process_transactions example_env settled_chunk ''hdfc'' ''booking'' ''m'' empty_world"
  let ?b = "new_batches empty_world (snd ?p)"
  have 1: "?p = (fst ?p, snd ?p)" by simp
  have 3: "hd ?b \<in> set ?b" using null_date_example(1) by simp
  have 4: "hd (hd ?b) \<in> set (hd ?b)" using null_date_example(2) by simp
  from null_dates_rewritten [where e = example_env and df_chunk = settled_chunk
      and bank_name = "''hdfc''" and transaction_type = "''booking''" and merchant_name = "''m''"
      and w = empty_world and out = "fst ?p" and w' = "snd ?p"
      and batch = "hd ?b" and txn = "hd (hd ?b)"]
    1 3 4 null_date_example(3,4)
  show ?thesis by blast
qed

section \<open>Columns of a coerced chunk\<close>

lemma df_columns_setitem_present:
  "name \<in> set (df_columns df) \<Longrightarrow> df_columns (setitem df name dt vs) = df_columns df"
  by (auto simp: setitem_def df_columns_def)

lemma df_columns_setitem_new:
  "name \<notin> set (df_columns df) \<Longrightarrow> df_columns (setitem df name dt vs) = df_columns df @ [name]"
  by (auto simp: setitem_def df_columns_def)

lemma filter_single: "filter P xs = [c] \<Longrightarrow> c \<in> set xs \<and> P c"
proof -
  assume "filter P xs = [c]"
  then have "c \<in> set (filter P xs)" by simp
  then show ?thesis by simp
qed

lemma getitem_one:
  "getitem df name = One_column c \<Longrightarrow> name \<in> set (df_columns df) \<and> label c = name"
proof -
  assume "getitem df name = One_column c"
  then have "filter (\<lambda>c. label c = name) (cols df) = [c]"
    by (auto simp: getitem_def split: list.splits)
  then have "c \<in> set (cols df) \<and> label c = name" by (rule filter_single)
  then show ?thesis by (auto simp: df_columns_def)
qed

lemma getitem_setitem_other:
  "name' \<noteq> name \<Longrightarrow> getitem (setitem df name dt vs) name' = getitem df name'"
proof -
  assume n: "name' \<noteq> name"
  have "filter (\<lambda>c. label c = name')
          (map (\<lambda>c. if label c = name then c\<lparr>dtype := dt, cells := vs\<rparr> else c) cs)
        = filter (\<lambda>c. label c = name') cs" for cs :: "column list"
    using n by (induction cs) auto
  with n show ?thesis by (simp add: getitem_def setitem_def)
qed

lemma getitem_setitem_same:
  assumes "getitem df name = One_column c"
  shows "getitem (setitem df name dt vs) name = One_column (c\<lparr>dtype := dt, cells := vs\<rparr>)"
proof -
  have "filter (\<lambda>c. label c = name)
          (map (\<lambda>c. if label c = name then c\<lparr>dtype := dt, cells := vs\<rparr> else c) cs)
        = map (\<lambda>c. c\<lparr>dtype := dt, cells := vs\<rparr>) (filter (\<lambda>c. label c = name) cs)"
    for cs :: "column list"
    by (induction cs) auto
  moreover from assms have "filter (\<lambda>c. label c = name) (cols df) = [c]"
    by (auto simp: getitem_def split: list.splits)
  moreover from assms have "name \<in> set (df_columns df)" by (simp add: getitem_one)
  ultimately show ?thesis by (simp add: getitem_def setitem_def)
qed

lemma getitem_setitem_new:
  assumes "name \<notin> set (df_columns df)"
  shows "getitem (setitem df name dt vs) name = One_column \<lparr>label = name, dtype = dt, cells = vs\<rparr>"
proof -
  from assms have "filter (\<lambda>c. label c = name) (cols df) = []"
    by (auto simp: df_columns_def filter_empty_conv)
  with assms show ?thesis by (simp add: getitem_def setitem_def)
qed

lemma to_datetime_columns:
  "convert_column_to_datetime e df c = Inr (df', evs) \<Longrightarrow> df_columns df' = df_columns df"
  by (auto simp: convert_column_to_datetime_def Let_def df_columns_setitem_present
      dest: getitem_one split: selection.splits)

lemma to_datetime_other:
  "convert_column_to_datetime e df c = Inr (df', evs) \<Longrightarrow> name \<noteq> c \<Longrightarrow>
   getitem df' name = getitem df name"
  by (auto simp: convert_column_to_datetime_def Let_def getitem_setitem_other
      split: selection.splits)

lemma to_float_columns:
  "convert_payable_to_float e df c = Inr df' \<Longrightarrow> df_columns df' = df_columns df"
  by (auto simp: convert_payable_to_float_def df_columns_setitem_present
      dest: getitem_one split: selection.splits if_splits)

lemma to_float_result:
  "convert_payable_to_float e df name = Inr df' \<Longrightarrow>
   \<exists>c. getitem df name = One_column c \<and> dtype c = ObjectDtype
     \<and> getitem df' name = One_column (c\<lparr>dtype := NumericDtype, cells := map (to_amount e) (cells c)\<rparr>)"
  by (auto simp: convert_payable_to_float_def getitem_setitem_same
      split: selection.splits if_splits)

lemma series_cells_one: "getitem df name = One_column c \<Longrightarrow> series_cells df name = cells c"
  by (simp add: series_cells_def)

lemma to_datetime_if_present:
  assumes "(if c \<in> set (df_columns df) then convert_column_to_datetime e df c else Inr (df, []))
             = Inr (df', evs)"
      and "name \<noteq> c"
  shows "df_columns df' = df_columns df \<and> getitem df' name = getitem df name"
proof (cases "c \<in> set (df_columns df)")
  case True
  with assms(1) have "convert_column_to_datetime e df c = Inr (df', evs)" by simp
  from to_datetime_columns [OF this] to_datetime_other [OF this assms(2)] show ?thesis by simp
next
  case False
  with assms(1) show ?thesis by simp
qed

text \<open>The two date coercions of \<open>coerce_chunk\<close>, as one step.\<close>

lemma coerce_chunk_dates:
  assumes "coerce_chunk e b mapping df = (Inr df', evs)"
  obtains df2 where "df_columns df2 = df_columns (rename mapping df)"
    "getitem df2 ''Payable_Merchant'' = getitem (rename mapping df) ''Payable_Merchant''"
    "if ''Payable_Merchant'' \<in> set (df_columns df2)
     then (\<exists>df3. convert_payable_to_float e df2 ''Payable_Merchant'' = Inr df3
             \<and> df' = (if b = ''icici''
                       then setitem (setitem df3 ''Payable_Merchant'' NumericDtype
                                       (map fillna0 (series_cells df3 ''Payable_Merchant'')))
                              ''CREDIT_DEBIT_AMOUNT'' ObjectDtype
                              (map credit_debit
                                 (series_cells (setitem df3 ''Payable_Merchant'' NumericDtype
                                       (map fillna0 (series_cells df3 ''Payable_Merchant'')))
                                    ''Payable_Merchant''))
                       else df3))
     else df' = df2"
proof -
  let ?df = "rename mapping df"
  obtain df1 ev1 where 1:
    "(if ''Transaction_Date'' \<in> set (df_columns ?df)
      then convert_column_to_datetime e ?df ''Transaction_Date'' else Inr (?df, [])) = Inr (df1, ev1)"
    using assms by (auto simp: coerce_chunk_def Let_def split: sum.splits if_splits)
  obtain df2 ev2 where 2:
    "(if ''Settlement_Date'' \<in> set (df_columns df1)
      then convert_column_to_datetime e df1 ''Settlement_Date'' else Inr (df1, [])) = Inr (df2, ev2)"
    using assms 1 by (auto simp: coerce_chunk_def Let_def split: sum.splits if_splits)
  have c1: "df_columns df1 = df_columns ?df"
    and g1: "getitem df1 ''Payable_Merchant'' = getitem ?df ''Payable_Merchant''"
    using to_datetime_if_present [OF 1, of "''Payable_Merchant''"] by simp_all
  have c2: "df_columns df2 = df_columns df1"
    and g2: "getitem df2 ''Payable_Merchant'' = getitem df1 ''Payable_Merchant''"
    using to_datetime_if_present [OF 2, of "''Payable_Merchant''"] by simp_all
  have 3: "if ''Payable_Merchant'' \<in> set (df_columns df2)
     then (\<exists>df3. convert_payable_to_float e df2 ''Payable_Merchant'' = Inr df3
             \<and> df' = (if b = ''icici''
                       then setitem (setitem df3 ''Payable_Merchant'' NumericDtype
                                       (map fillna0 (series_cells df3 ''Payable_Merchant'')))
                              ''CREDIT_DEBIT_AMOUNT'' ObjectDtype
                              (map credit_debit
                                 (series_cells (setitem df3 ''Payable_Merchant'' NumericDtype
                                       (map fillna0 (series_cells df3 ''Payable_Merchant'')))
                                    ''Payable_Merchant''))
                       else df3))
     else df' = df2"
    using assms by (simp add: coerce_chunk_def Let_def 1 2 split: sum.splits if_splits)
  show ?thesis
    by (rule that [of df2]) (use c1 c2 g1 g2 3 in simp_all)
qed

lemma coerce_chunk_columns:
  assumes "coerce_chunk e b mapping df = (Inr df', evs)" and "b \<noteq> ''icici''"
  shows "df_columns df' = df_columns (rename mapping df)"
proof -
  from assms(1) obtain df2 where c: "df_columns df2 = df_columns (rename mapping df)"
    and 3: "if ''Payable_Merchant'' \<in> set (df_columns df2)
     then (\<exists>df3. convert_payable_to_float e df2 ''Payable_Merchant'' = Inr df3
             \<and> df' = (if b = ''icici''
                       then setitem (setitem df3 ''Payable_Merchant'' NumericDtype
                                       (map fillna0 (series_cells df3 ''Payable_Merchant'')))
                              ''CREDIT_DEBIT_AMOUNT'' ObjectDtype
                              (map credit_debit
                                 (series_cells (setitem df3 ''Payable_Merchant'' NumericDtype
                                       (map fillna0 (series_cells df3 ''Payable_Merchant'')))
                                    ''Payable_Merchant''))
                       else df3))
     else df' = df2"
    by (rule coerce_chunk_dates)
  from 3 assms(2) c show ?thesis
    by (auto split: if_splits dest: to_float_columns)
qed

lemma coerce_chunk_icici:
  assumes "coerce_chunk e ''icici'' mapping df = (Inr df', evs)"
      and "''Payable_Merchant'' \<in> set (df_columns (rename mapping df))"
      and "''CREDIT_DEBIT_AMOUNT'' \<notin> set (df_columns (rename mapping df))"
  shows "\<exists>c. getitem (rename mapping df) ''Payable_Merchant'' = One_column c
           \<and> getitem df' ''Payable_Merchant''
               = One_column (c\<lparr>dtype := NumericDtype,
                               cells := map (\<lambda>v. fillna0 (to_amount e v)) (cells c)\<rparr>)
           \<and> getitem df' ''CREDIT_DEBIT_AMOUNT''
               = One_column \<lparr>label = ''CREDIT_DEBIT_AMOUNT'', dtype = ObjectDtype,
                             cells = map (\<lambda>v. credit_debit (fillna0 (to_amount e v))) (cells c)\<rparr>"
proof -
  from assms(1) obtain df2 where c: "df_columns df2 = df_columns (rename mapping df)"
    and g: "getitem df2 ''Payable_Merchant'' = getitem (rename mapping df) ''Payable_Merchant''"
    and 3: "if ''Payable_Merchant'' \<in> set (df_columns df2)
     then (\<exists>df3. convert_payable_to_float e df2 ''Payable_Merchant'' = Inr df3
             \<and> df' = (if ''icici'' = ''icici''
                       then setitem (setitem df3 ''Payable_Merchant'' NumericDtype
                                       (map fillna0 (series_cells df3 ''Payable_Merchant'')))
                              ''CREDIT_DEBIT_AMOUNT'' ObjectDtype
                              (map credit_debit
                                 (series_cells (setitem df3 ''Payable_Merchant'' NumericDtype
                                       (map fillna0 (series_cells df3 ''Payable_Merchant'')))
                                    ''Payable_Merchant''))
                       else df3))
     else df' = df2"
    by (rule coerce_chunk_dates)
  from 3 c assms(2) obtain df3 where f: "convert_payable_to_float e df2 ''Payable_Merchant'' = Inr df3"
    and d: "df' = setitem (setitem df3 ''Payable_Merchant'' NumericDtype
                                       (map fillna0 (series_cells df3 ''Payable_Merchant'')))
                              ''CREDIT_DEBIT_AMOUNT'' ObjectDtype
                              (map credit_debit
                                 (series_cells (setitem df3 ''Payable_Merchant'' NumericDtype
                                       (map fillna0 (series_cells df3 ''Payable_Merchant'')))
                                    ''Payable_Merchant''))"
    by auto
  from to_float_result [OF f] g obtain col where
    col: "getitem (rename mapping df) ''Payable_Merchant'' = One_column col"
    and g3: "getitem df3 ''Payable_Merchant''
               = One_column (col\<lparr>dtype := NumericDtype, cells := map (to_amount e) (cells col)\<rparr>)"
    by auto
  let ?df4 = "setitem df3 ''Payable_Merchant'' NumericDtype
                (map fillna0 (series_cells df3 ''Payable_Merchant''))"
  have s3: "series_cells df3 ''Payable_Merchant'' = map (to_amount e) (cells col)"
    using series_cells_one [OF g3] by simp
  have g4: "getitem ?df4 ''Payable_Merchant''
              = One_column (col\<lparr>dtype := NumericDtype,
                               cells := map (\<lambda>v. fillna0 (to_amount e v)) (cells col)\<rparr>)"
    by (simp add: getitem_setitem_same [OF g3] s3 comp_def)
  have c4: "df_columns ?df4 = df_columns (rename mapping df)"
    using to_float_columns [OF f] c assms(2) by (simp add: df_columns_setitem_present)
  have s4: "series_cells ?df4 ''Payable_Merchant'' = map (\<lambda>v. fillna0 (to_amount e v)) (cells col)"
    using series_cells_one [OF g4] by simp
  have "getitem df' ''Payable_Merchant'' = getitem ?df4 ''Payable_Merchant''"
    unfolding d by (rule getitem_setitem_other) simp
  moreover have "getitem df' ''CREDIT_DEBIT_AMOUNT''
      = One_column \<lparr>label = ''CREDIT_DEBIT_AMOUNT'', dtype = ObjectDtype,
                    cells = map credit_debit (series_cells ?df4 ''Payable_Merchant'')\<rparr>"
    unfolding d by (rule getitem_setitem_new) (simp add: c4 assms(3))
  ultimately show ?thesis using col g4 s4 by (simp add: comp_def)
qed

section \<open>The credit or debit classification\<close>

lemma rename_columns:
  "df_columns (rename m df) = map (\<lambda>l. case map_of m l of None \<Rightarrow> l | Some l' \<Rightarrow> l') (df_columns df)"
  by (auto simp: rename_def df_columns_def split: option.splits)

lemma clean_no_underscore: "CHR ''_'' \<notin> set (clean_column_name h)"
  by (simp add: clean_column_name_filter keep_def)

lemma registry_targets:
  "\<forall>sch \<in> set (concat (map (\<lambda>(b, m). map snd m) BANK_MAPPINGS)).
     ''CREDIT_DEBIT_AMOUNT'' \<notin> snd ` set (column_mapping sch)"
  by code_simp

lemma no_credit_debit_column:
  assumes "resolve b t = Some sch"
  shows "''CREDIT_DEBIT_AMOUNT'' \<notin> set (df_columns (rename (column_mapping sch) (clean_columns df)))"
proof
  assume "''CREDIT_DEBIT_AMOUNT'' \<in> set (df_columns (rename (column_mapping sch) (clean_columns df)))"
  then obtain h where h: "h \<in> set (df_columns df)"
    and eq: "''CREDIT_DEBIT_AMOUNT''
              = (case map_of (column_mapping sch) (clean_column_name h) of
                   None \<Rightarrow> clean_column_name h | Some l' \<Rightarrow> l')"
    by (auto simp: rename_columns df_columns_clean)
  show False
  proof (cases "map_of (column_mapping sch) (clean_column_name h)")
    case None
    with eq have "clean_column_name h = ''CREDIT_DEBIT_AMOUNT''" by simp
    then have "CHR ''_'' \<in> set (clean_column_name h)" by simp
    with clean_no_underscore show False by blast
  next
    case (Some l')
    with eq have "(clean_column_name h, ''CREDIT_DEBIT_AMOUNT'') \<in> set (column_mapping sch)"
      by (simp add: map_of_SomeD)
    then have "''CREDIT_DEBIT_AMOUNT'' \<in> snd ` set (column_mapping sch)" by force
    with registry_targets resolve_in_registry [OF assms] show False by blast
  qed
qed

text \<open>
  Claim C10. For a bank other than icici, in every record of a batch that a call of
  \<open>process_dataframe_chunk\<close> hands to the store the field \<open>Credit_Debit_Amount\<close> is
  \<open>None\<close>: the cleaned labels hold no underscore, no registered renaming produces the
  label \<open>CREDIT_DEBIT_AMOUNT\<close>, and outside the icici branch the coercions add no column.
\<close>

theorem credit_debit_amount_null_outside_icici:
  assumes "bank_name \<noteq> ''icici''"
      and "process_dataframe_chunk e df_chunk bank_name transaction_type merchant_name w = (out, w')"
      and "batch \<in> set (new_batches w w')" and "txn \<in> set batch"
  shows "map_of txn ''Credit_Debit_Amount'' = Some PyNone"
proof -
  from pdc_new_batches [OF assms(2)] assms(3) obtain sch df2 evs w1 out2 where
    sch: "resolve bank_name transaction_type = Some sch" and
    co: "coerce_chunk e bank_name (column_mapping sch) (clean_columns df_chunk) = (Inr df2, evs)" and
    bc: "bulk_calls w1 = bulk_calls w" and
    pt: "process_transactions e df2 bank_name transaction_type merchant_name w1 = (out2, w')"
    by auto
  have nocol: "''CREDIT_DEBIT_AMOUNT'' \<notin> set (df_columns df2)"
    using coerce_chunk_columns [OF co assms(1)] no_credit_debit_column [OF sch] by simp
  from pt_new_batches [OF pt] assms(3) new_batches_cong [OF bc] obtain i acc df' evs' where
    pr: "process_rows e bank_name i transaction_type merchant_name (iterrows df2) start_counters df2
           = (Inr acc, df', evs')"
    and nb: "batch = bulk_data_transactions acc"
    by auto
  have step: "\<forall>idx r df1 d df3 ev1 d' ev2. (idx, r) \<in> set (iterrows df2) \<longrightarrow>
             build_transaction_data e bank_name i transaction_type merchant_name r transaction_fields df1
               = (Inr d, df3, ev1) \<longrightarrow>
             handle_nat_in_datetime_fields d = (Inr d', ev2) \<longrightarrow>
             map_of d' ''Credit_Debit_Amount'' = Some PyNone"
  proof (intro allI impI)
    fix idx r df1 d df3 ev1 d' ev2
    assume r: "(idx, r) \<in> set (iterrows df2)"
      and bd: "build_transaction_data e bank_name i transaction_type merchant_name r
                    transaction_fields df1 = (Inr d, df3, ev1)"
      and hn: "handle_nat_in_datetime_fields d = (Inr d', ev2)"
    have "row_get r ''CREDIT_DEBIT_AMOUNT'' = PyNone"
      using iterrows_labels [OF r] nocol by (simp add: row_get_absent)
    then have "map_of d ''Credit_Debit_Amount'' = Some PyNone"
      by (intro build_pure [OF bd distinct_transaction_fields, of _ "Row_get ''CREDIT_DEBIT_AMOUNT''"])
         (simp_all add: transaction_fields_def)
    moreover have "map_of d' ''Credit_Debit_Amount'' = map_of d ''Credit_Debit_Amount''"
      by (rule handle_nat_other [OF hn]) (simp add: datetime_fields_def)
    ultimately show "map_of d' ''Credit_Debit_Amount'' = Some PyNone" by simp
  qed
  have "list_all2 (\<lambda>(idx, r) d'. map_of d' ''Credit_Debit_Amount'' = Some PyNone)
          (if valid_type transaction_type then iterrows df2 else []) (bulk_data_transactions acc)"
    using start_rows [OF pr step] by simp
  then have "\<forall>d' \<in> set (bulk_data_transactions acc). map_of d' ''Credit_Debit_Amount'' = Some PyNone"
    by (auto simp: list_all2_conv_all_nth in_set_conv_nth split: prod.splits)
  with assms(4) nb show ?thesis by simp
qed

lemma booking_coerced_eq:
  "coerce_chunk example_env ''karur_vysya''
     (column_mapping (the (registry_entry ''karur_vysya'' ''booking''))) (clean_columns booking_chunk)
   = (Inr booking_coerced,
      [Warning_could_not_parse_dates ''Transaction_Date'' [0],
       Warning_could_not_parse_dates ''Settlement_Date'' [0]])"
  by code_simp

lemma discard_result_snd:
  "snd (case p of (Returned results, w') \<Rightarrow> (Returned (), w') | (Raised x, w') \<Rightarrow> (Raised x, w'))
     = snd p"
  by (cases p; cases "fst p") auto

lemma booking_processed:
  "snd (process_dataframe_chunk example_env booking_chunk ''karur_vysya'' ''booking'' ''m'' empty_world)
     = snd (process_transactions example_env booking_coerced ''karur_vysya'' ''booking'' ''m''
              booking_world)"
  by (simp add: process_dataframe_chunk_def Let_def resolve_examples expected_columns_examples
      df_columns_clean booking_chunk_headers booking_coerced_eq discard_result_snd booking_world_def)

lemma booking_batches:
  "new_batches booking_world
     (snd (process_transactions example_env booking_coerced ''karur_vysya'' ''booking'' ''m''
              booking_world)) \<noteq> []"
  "hd (new_batches booking_world
     (snd (process_transactions example_env booking_coerced ''karur_vysya'' ''booking'' ''m''
              booking_world))) \<noteq> []"
  "map_of (hd (hd (new_batches booking_world
     (snd (process_transactions example_env booking_coerced ''karur_vysya'' ''booking'' ''m''
              booking_world))))) ''Payable_Merchant'' = Some (Float (Fin 1234.5))"
  by code_simp+

theorem credit_debit_amount_null_outside_icici_witness:
  "''karur_vysya'' \<noteq> ''icici''
   \<and> hd (new_batches empty_world
         (snd (process_dataframe_chunk example_env booking_chunk ''karur_vysya'' ''booking'' ''m'' empty_world)))
     \<in> set (new_batches empty_world
         (snd (process_dataframe_chunk example_env booking_chunk ''karur_vysya'' ''booking'' ''m'' empty_world)))
   \<and> hd (hd (new_batches empty_world
         (snd (process_dataframe_chunk example_env booking_chunk ''karur_vysya'' ''booking'' ''m'' empty_world))))
     \<in> set (hd (new_batches empty_world
         (snd (process_dataframe_chunk example_env booking_chunk ''karur_vysya'' ''booking'' ''m'' empty_world))))
   \<and> map_of (hd (hd (new_batches empty_world
         (snd (process_dataframe_chunk example_env booking_chunk ''karur_vysya'' ''booking'' ''m'' empty_world)))))
      ''Payable_Merchant'' = Some (Float (Fin 1234.5))
   \<and> map_of (hd (hd (new_batches empty_world
         (snd (process_dataframe_chunk example_env booking_chunk ''karur_vysya'' ''booking'' ''m'' empty_world)))))
      ''Credit_Debit_Amount'' = Some PyNone"
proof -
  let ?p = "process_dataframe_chunk example_env booking_chunk ''karur_vysya'' ''booking'' ''m'' empty_world"
  let ?b = "new_batches empty_world (snd ?p)"
  have nb: "?b = new_batches booking_world
     (snd (process_transactions example_env booking_coerced ''karur_vysya'' ''booking'' ''m''
              booking_world))"
    unfolding booking_processed
    by (rule new_batches_cong [symmetric]) (simp add: booking_world_def log_events_def)
  have 1: "?p = (fst ?p, snd ?p)" by simp
  have 2: "''karur_vysya'' \<noteq> ''icici''" by simp
  have 3: "hd ?b \<in> set ?b" unfolding nb using booking_batches(1) by simp
  have 4: "hd (hd ?b) \<in> set (hd ?b)" unfolding nb using booking_batches(2) by simp
  have 5: "map_of (hd (hd ?b)) ''Payable_Merchant'' = Some (Float (Fin 1234.5))"
    unfolding nb by (rule booking_batches(3))
  from credit_debit_amount_null_outside_icici [OF 2 1 3 4] 2 3 4 5
  show ?thesis by blast
qed

lemma credit_debit_sign:
  "credit_debit (fillna0 (Float x))
     = (if float_gt0 x then Str ''CREDIT'' else if float_lt0 x then Str ''DEBIT'' else PyNone)"
  by (cases x) (auto simp: credit_debit_def fillna0_def)

lemma to_amount_float: "\<exists>x. to_amount e v = Float x"
  by (cases v) (auto simp: to_amount_def)

lemma icici_schema:
  assumes "resolve ''icici'' t = Some sch"
  shows "sch = the (registry_entry ''icici'' ''both'')"
  using assms by (auto simp: resolve_def registry_entry_def BANK_MAPPINGS_def Let_def split: if_splits)

lemma icici_payable_present:
  assumes "resolve ''icici'' t = Some sch"
      and "set (expected_columns sch) \<subseteq> set (map clean_column_name (df_columns df))"
  shows "''Payable_Merchant'' \<in> set (df_columns (rename (column_mapping sch) (clean_columns df)))"
proof -
  have sch: "sch = the (registry_entry ''icici'' ''both'')" using assms(1) by (rule icici_schema)
  have "''NETAMT'' \<in> set (expected_columns sch)"
    unfolding sch by (simp add: expected_columns_examples)
  with assms(2) have "''NETAMT'' \<in> set (map clean_column_name (df_columns df))" by blast
  moreover have "map_of (column_mapping sch) ''NETAMT'' = Some ''Payable_Merchant''"
    unfolding sch by (simp add: registry_entry_def BANK_MAPPINGS_def)
  ultimately show ?thesis
    by (force simp: rename_columns df_columns_clean)
qed

text \<open>
  Claim C5. For icici, when the coercion of a chunk that has a \<open>Payable_Merchant\<close>
  column returns, that column holds the parsed amounts with every NaN replaced by zero, and
  the new column \<open>CREDIT_DEBIT_AMOUNT\<close> holds the class of each of these amounts: CREDIT
  when it is positive, DEBIT when it is negative, \<open>None\<close> otherwise, so \<open>None\<close> for zero
  and for an amount that did not parse. Every chunk of icici that passes the header check
  has the \<open>Payable_Merchant\<close> column and no \<open>CREDIT_DEBIT_AMOUNT\<close> column before
  the coercion. For any other bank the coercion leaves the column labels as the renaming
  gave them: it creates no \<open>CREDIT_DEBIT_AMOUNT\<close> column.
\<close>

theorem credit_debit_classification:
  "(coerce_chunk e ''icici'' mapping df = (Inr df', evs)
      \<and> ''Payable_Merchant'' \<in> set (df_columns (rename mapping df))
      \<and> ''CREDIT_DEBIT_AMOUNT'' \<notin> set (df_columns (rename mapping df)) \<longrightarrow>
      (\<exists>c. getitem (rename mapping df) ''Payable_Merchant'' = One_column c
         \<and> getitem df' ''Payable_Merchant''
             = One_column (c\<lparr>dtype := NumericDtype,
                             cells := map (\<lambda>v. fillna0 (to_amount e v)) (cells c)\<rparr>)
         \<and> getitem df' ''CREDIT_DEBIT_AMOUNT''
             = One_column \<lparr>label = ''CREDIT_DEBIT_AMOUNT'', dtype = ObjectDtype,
                           cells = map (\<lambda>v. credit_debit (fillna0 (to_amount e v))) (cells c)\<rparr>))
   \<and> (\<exists>x. to_amount e v = Float x)
   \<and> fillna0 (Float NaN) = Float (Fin 0)
   \<and> credit_debit (fillna0 (Float x))
       = (if float_gt0 x then Str ''CREDIT'' else if float_lt0 x then Str ''DEBIT'' else PyNone)
   \<and> (resolve ''icici'' transaction_type = Some sch
        \<and> set (expected_columns sch) \<subseteq> set (map clean_column_name (df_columns df_chunk)) \<longrightarrow>
        ''Payable_Merchant'' \<in> set (df_columns (rename (column_mapping sch) (clean_columns df_chunk)))
        \<and> ''CREDIT_DEBIT_AMOUNT'' \<notin> set (df_columns (rename (column_mapping sch) (clean_columns df_chunk))))
   \<and> (bank_name \<noteq> ''icici'' \<and> coerce_chunk e bank_name mapping df = (Inr df2, evs2) \<longrightarrow>
        df_columns df2 = df_columns (rename mapping df))"
  using coerce_chunk_icici [of e mapping df df' evs] to_amount_float [of e v] credit_debit_sign [of x]
    icici_payable_present [of transaction_type sch df_chunk]
    no_credit_debit_column [of "''icici''" transaction_type sch df_chunk]
    coerce_chunk_columns [of e bank_name mapping df df2 evs2]
  by (simp add: fillna0_def)

lemma icici_coerced_eq:
  "coerce_chunk example_env ''icici'' (column_mapping (the (registry_entry ''icici'' ''both'')))
     (clean_columns icici_chunk)
   = (Inr icici_coerced,
      [Warning_could_not_parse_dates ''Transaction_Date'' [0, 1, 2, 3],
       Warning_could_not_parse_dates ''Settlement_Date'' [0, 1, 2, 3]])"
  by code_simp

lemma icici_renamed_columns:
  "df_columns (rename (column_mapping (the (registry_entry ''icici'' ''both''))) (clean_columns icici_chunk))
     = [''Settlement_Date'', ''Transaction_Id'', ''Order_Id'', ''Arn_No'', ''MID'',
        ''Transaction_Date'', ''Payable_Merchant'', ''Card_No'', ''Card_type'', ''Tid'']"
  "series_cells (rename (column_mapping (the (registry_entry ''icici'' ''both''))) (clean_columns icici_chunk))
     ''Payable_Merchant'' = [Str ''50.00'', Str ''-50.00'', Str ''0.00'', Str ''abc'']"
  "series_cells icici_coerced ''Payable_Merchant''
     = [Float (Fin 50), Float (Fin (- 50)), Float (Fin 0), Float (Fin 0)]"
  "series_cells icici_coerced ''CREDIT_DEBIT_AMOUNT'' = [Str ''CREDIT'', Str ''DEBIT'', PyNone, PyNone]"
  by code_simp+

theorem credit_debit_classification_witness:
  "coerce_chunk example_env ''icici'' (column_mapping (the (registry_entry ''icici'' ''both'')))
     (clean_columns icici_chunk)
     = (Inr icici_coerced,
        [Warning_could_not_parse_dates ''Transaction_Date'' [0, 1, 2, 3],
         Warning_could_not_parse_dates ''Settlement_Date'' [0, 1, 2, 3]])
   \<and> ''Payable_Merchant''
       \<in> set (df_columns (rename (column_mapping (the (registry_entry ''icici'' ''both'')))
                             (clean_columns icici_chunk)))
   \<and> ''CREDIT_DEBIT_AMOUNT''
       \<notin> set (df_columns (rename (column_mapping (the (registry_entry ''icici'' ''both'')))
                             (clean_columns icici_chunk)))
   \<and> series_cells (rename (column_mapping (the (registry_entry ''icici'' ''both'')))
                    (clean_columns icici_chunk)) ''Payable_Merchant''
       = [Str ''50.00'', Str ''-50.00'', Str ''0.00'', Str ''abc'']
   \<and> series_cells icici_coerced ''Payable_Merchant''
       = [Float (Fin 50), Float (Fin (- 50)), Float (Fin 0), Float (Fin 0)]
   \<and> series_cells icici_coerced ''CREDIT_DEBIT_AMOUNT''
       = [Str ''CREDIT'', Str ''DEBIT'', PyNone, PyNone]"
  using credit_debit_classification [where e = example_env
      and mapping = "column_mapping (the (registry_entry ''icici'' ''both''))"
      and df = "clean_columns icici_chunk" and df' = icici_coerced
      and evs = "[Warning_could_not_parse_dates ''Transaction_Date'' [0, 1, 2, 3],
                  Warning_could_not_parse_dates ''Settlement_Date'' [0, 1, 2, 3]]"]
    icici_coerced_eq icici_renamed_columns
  by simp

end
